theory Spec2Isabelle
  imports Main
begin

section \<open>vtadmin API (go/vt/vtadmin/api.go): data model\<close>

text \<open>
  The aggregation layer of vtadmin is embedded as pure functions. A Go return pair
  \<open>(result, error)\<close> is a pair of options (\<open>None\<close> is \<open>nil\<close>), so that "a result
  together with an error" is a value of the model and its absence is a theorem, not a
  typing fact. Every remote client of a cluster is a field of the cluster holding the
  answer the client gives; a call answers the same way each time it is made within one
  request. Each operation also returns the log of the remote calls it issued.

  The goroutines of one fan-out are run in dispatch order: the accumulator and the error
  recorder are then filled in range order, which is one of the interleavings the mutex
  admits. The statements below are about which calls are issued, whether the recorder is
  empty and what is returned after \<open>wg.Wait()\<close>. Where one of them gives the order
  of the recorded errors, of the accumulated results or of the logged calls, that order
  is the one of this interleaving; another interleaving permutes it.
\<close>

datatype sentinel =
    ErrInvalidRequest | ErrUnsupportedCluster | ErrNoTablet | ErrAmbiguousTablet | ErrNoSrvVSchema

datatype code = Code_NOT_FOUND | Code_UNKNOWN

datatype fmt_arg = ArgSentinel sentinel | ArgString string | ArgStrings "string list"

text \<open>
  \<open>Remote\<close> is a failure reported by a remote client or an external library;
  \<open>Sentinel\<close> is a package-level error value returned as it is; \<open>Wrap s m\<close> is
  \<open>fmt.Errorf("%w" ++ m, s)\<close>, which \<open>errors.Is\<close> recognises as \<open>s\<close>;
  \<open>VtError c f args\<close> is \<open>vterrors.Errorf(c, f, args...)\<close>: an error with code
  \<open>c\<close> whose message is \<open>f\<close> formatted with \<open>args\<close>; \<open>AllErrors es\<close> is
  \<open>AllErrorRecorder.Error()\<close> over the recorded errors \<open>es\<close>.
\<close>

datatype error =
    Remote string
  | Sentinel sentinel
  | Wrap sentinel string
  | VtError code string "fmt_arg list"
  | AllErrors "error list"

type_synonym 'a ret = "'a option \<times> error option"

datatype tablet_type = MASTER | REPLICA | RDONLY | SPARE | BACKUP | DRAINED

datatype serving_state = UNKNOWN | SERVING | NOT_SERVING

record tablet_alias =
  Cell :: string
  Uid :: nat

record topo_tablet =
  Alias :: tablet_alias
  Hostname :: string
  Keyspace :: string
  Type :: tablet_type

record pb_cluster =
  Id :: string
  Name :: string

text \<open>The inner \<open>Tablet\<close> pointer of a \<open>vtadminpb.Tablet\<close> is taken to be non-nil.\<close>

record tablet =
  tablet_Cluster :: pb_cluster
  Tablet :: topo_tablet
  State :: serving_state

record table_definition =
  td_Name :: string
  td_Schema :: string

record schema_definition =
  TableDefinitions :: "table_definition list"

record get_schema_response =
  Schema :: "schema_definition option"

record vtgate =
  g_Cell :: string
  g_Hostname :: string
  g_Keyspaces :: "string list"
  g_Pool :: string

record pb_vtgate =
  vg_Cell :: string
  vg_Cluster :: pb_cluster
  vg_Hostname :: string
  vg_Keyspaces :: "string list"
  vg_Pool :: string

record pb_schema =
  s_Cluster :: pb_cluster
  s_Keyspace :: string
  s_TableDefinitions :: "table_definition list"

record shard =
  sh_Name :: string
  sh_Shard :: string

record pb_keyspace =
  k_Cluster :: pb_cluster
  k_Keyspace :: string
  k_Shards :: "shard list"

datatype vschema_keyspace = VSchemaKeyspace string

record srv_vschema =
  Keyspaces :: "string \<rightharpoonup> vschema_keyspace"

record get_srv_vschema_response =
  SrvVSchema :: "srv_vschema option"

datatype call =
    CallDiscoverVTGates string
  | CallDial string
  | CallGetKeyspaces string
  | CallFindAllShardsInKeyspace string string
  | CallGetTablets string
  | CallFindTablet string
  | CallGetSchema string tablet_alias
  | CallGetSrvVSchema string string

text \<open>
  A cluster: its identifier and name, and the answers of its discovery client
  (\<open>DiscoverVTGates\<close>), of its vtctld client (\<open>Dial\<close>, \<open>VtctldGetKeyspaces\<close>,
  \<open>FindAllShardsInKeyspace\<close>, \<open>GetSchema\<close>, \<open>GetSrvVSchema\<close>) and of its own
  methods \<open>GetTablets\<close> and \<open>FindTablet\<close>, whose code is in package \<open>cluster\<close>.
\<close>

record cluster =
  ID :: string
  cName :: string
  DiscoverVTGates :: "error + vtgate list"
  Dial :: "error option"
  VtctldGetKeyspaces :: "error + string list"
  FindAllShardsInKeyspace :: "string \<Rightarrow> error + shard list"
  ClusterGetTablets :: "error + tablet list"
  FindTablet :: "(tablet \<Rightarrow> bool) \<Rightarrow> error + tablet"
  GetSchema :: "tablet_alias \<Rightarrow> error + get_schema_response option"
  GetSrvVSchema :: "string \<Rightarrow> error + get_srv_vschema_response"

text \<open>
  The API value: the cluster slice and the map from identifier to cluster.
  \<open>mapOrder\<close> is the order in which \<open>range api.clusterMap\<close> yields the keys in this
  run (Go leaves it unspecified); see \<open>wf_api\<close>.
\<close>

record api =
  clusters :: "cluster list"
  clusterMap :: "string \<rightharpoonup> cluster"
  mapOrder :: "string list"

definition wf_api :: "api \<Rightarrow> bool" where
  "wf_api a \<longleftrightarrow> distinct (mapOrder a) \<and> set (mapOrder a) = dom (clusterMap a)"

definition ToProto :: "cluster \<Rightarrow> pb_cluster" where
  "ToProto c = \<lparr>Id = ID c, Name = cName c\<rparr>"

section \<open>Cluster registry\<close>

text \<open>
  \<open>getClustersForRequest\<close>: with no ids, the cluster slice and the keys of the map;
  otherwise the clusters the map has for the ids, in the order of the ids, and the ids.
\<close>

fun lookupClusters :: "(string \<rightharpoonup> cluster) \<Rightarrow> string list \<Rightarrow> cluster list" where
  "lookupClusters m [] = []"
| "lookupClusters m (i # ids) =
     (case m i of Some c \<Rightarrow> c # lookupClusters m ids | None \<Rightarrow> lookupClusters m ids)"

definition getClustersForRequest :: "api \<Rightarrow> string list \<Rightarrow> cluster list \<times> string list" where
  "getClustersForRequest a ids =
     (if length ids = 0 then (clusters a, mapOrder a)
      else (lookupClusters (clusterMap a) ids, ids))"

section \<open>Fan-out\<close>

text \<open>
  The loop shared by the aggregate operations: one goroutine per item, each appending
  to the accumulator and recording into the error recorder, then \<open>wg.Wait()\<close>.
  A branch yields what it appended, what it recorded and the calls it made.
\<close>

type_synonym 'r branch = "'r list \<times> error list \<times> call list"

fun fanout :: "('i \<Rightarrow> 'r branch) \<Rightarrow> 'i list \<Rightarrow> 'r branch" where
  "fanout f [] = ([], [], [])"
| "fanout f (x # xs) =
     (case f x of (rs, es, cs) \<Rightarrow>
        (case fanout f xs of (acc, er, log) \<Rightarrow> (rs @ acc, es @ er, cs @ log)))"

text \<open>\<open>if er.HasErrors() { return nil, er.Error() }; return resp, nil\<close>\<close>

definition finish :: "error list \<Rightarrow> 'a \<Rightarrow> 'a ret" where
  "finish er resp = (if er \<noteq> [] then (None, Some (AllErrors er)) else (Some resp, None))"

section \<open>GetGates, GetTablets, GetTablet\<close>

definition gatesBranch :: "cluster \<Rightarrow> pb_vtgate branch" where
  "gatesBranch c =
     (case DiscoverVTGates c of
        Inl err \<Rightarrow> ([], [err], [CallDiscoverVTGates (ID c)])
      | Inr gs \<Rightarrow>
          (map (\<lambda>g. \<lparr>vg_Cell = g_Cell g, vg_Cluster = \<lparr>Id = ID c, Name = cName c\<rparr>,
                     vg_Hostname = g_Hostname g, vg_Keyspaces = g_Keyspaces g,
                     vg_Pool = g_Pool g\<rparr>) gs,
           [], [CallDiscoverVTGates (ID c)]))"

definition GetGates :: "api \<Rightarrow> string list \<Rightarrow> pb_vtgate list ret \<times> call list" where
  "GetGates a ClusterIds =
     (case getClustersForRequest a ClusterIds of (cs, _) \<Rightarrow>
        (case fanout gatesBranch cs of (gates, er, log) \<Rightarrow> (finish er gates, log)))"

definition tabletsBranch :: "cluster \<Rightarrow> tablet branch" where
  "tabletsBranch c =
     (case ClusterGetTablets c of
        Inl err \<Rightarrow> ([], [err], [CallGetTablets (ID c)])
      | Inr ts \<Rightarrow> (ts, [], [CallGetTablets (ID c)]))"

definition GetTablets :: "api \<Rightarrow> string list \<Rightarrow> tablet list ret \<times> call list" where
  "GetTablets a ClusterIds =
     (case getClustersForRequest a ClusterIds of (cs, _) \<Rightarrow>
        (case fanout tabletsBranch cs of (tablets, er, log) \<Rightarrow> (finish er tablets, log)))"

definition tabletBranch :: "string \<Rightarrow> cluster \<Rightarrow> tablet branch" where
  "tabletBranch hostname c =
     (case ClusterGetTablets c of
        Inl err \<Rightarrow> ([], [err], [CallGetTablets (ID c)])
      | Inr ts \<Rightarrow>
          (filter (\<lambda>t. Hostname (Tablet t) = hostname) ts, [], [CallGetTablets (ID c)]))"

definition tabletFmt :: string where
  "tabletFmt = ''%s: %s, searched clusters = %v''"

definition GetTablet :: "api \<Rightarrow> string \<Rightarrow> string list \<Rightarrow> tablet ret \<times> call list" where
  "GetTablet a hostname ClusterIds =
     (case getClustersForRequest a ClusterIds of (cs, ids) \<Rightarrow>
        (case fanout (tabletBranch hostname) cs of (tablets, er, log) \<Rightarrow>
           ((if er \<noteq> [] then (None, Some (AllErrors er))
             else (case tablets of
                     [] \<Rightarrow> (None, Some (VtError Code_NOT_FOUND tabletFmt
                              [ArgSentinel ErrNoTablet, ArgString hostname, ArgStrings ids]))
                   | [t] \<Rightarrow> (Some t, None)
                   | _ \<Rightarrow> (None, Some (VtError Code_NOT_FOUND tabletFmt
                              [ArgSentinel ErrAmbiguousTablet, ArgString hostname,
                               ArgStrings ids])))),
            log)))"

text \<open>
  What a caller can read from an error besides its message: the code it was made with,
  when it was made by \<open>vterrors.Errorf\<close>.
\<close>

fun errCode :: "error \<Rightarrow> code option" where
  "errCode (VtError c _ _) = Some c"
| "errCode _ = None"

text \<open>The tablets a cluster lists, none when the listing fails.\<close>

definition listed :: "cluster \<Rightarrow> tablet list" where
  "listed c = (case ClusterGetTablets c of Inl _ \<Rightarrow> [] | Inr ts \<Rightarrow> ts)"

section \<open>GetKeyspaces\<close>

text \<open>
  A keyspace descriptor is represented by its name. The inner goroutines record into
  the recorder of the operation itself; the cluster's goroutine appends what the inner
  ones gathered whether or not one of them failed.
\<close>

definition shardsBranch :: "cluster \<Rightarrow> string \<Rightarrow> pb_keyspace branch" where
  "shardsBranch c ks =
     (case FindAllShardsInKeyspace c ks of
        Inl err \<Rightarrow> ([], [err], [CallFindAllShardsInKeyspace (ID c) ks])
      | Inr shards \<Rightarrow>
          ([\<lparr>k_Cluster = ToProto c, k_Keyspace = ks, k_Shards = shards\<rparr>], [],
           [CallFindAllShardsInKeyspace (ID c) ks]))"

definition keyspacesBranch :: "cluster \<Rightarrow> pb_keyspace branch" where
  "keyspacesBranch c =
     (case Dial c of
        Some err \<Rightarrow> ([], [err], [CallDial (ID c)])
      | None \<Rightarrow>
          (case VtctldGetKeyspaces c of
             Inl err \<Rightarrow> ([], [err], [CallDial (ID c), CallGetKeyspaces (ID c)])
           | Inr kss \<Rightarrow>
               (case fanout (shardsBranch c) kss of (acc, er, log) \<Rightarrow>
                  (acc, er, [CallDial (ID c), CallGetKeyspaces (ID c)] @ log))))"

definition GetKeyspaces :: "api \<Rightarrow> string list \<Rightarrow> pb_keyspace list ret \<times> call list" where
  "GetKeyspaces a ClusterIds =
     (case getClustersForRequest a ClusterIds of (cs, _) \<Rightarrow>
        (case fanout keyspacesBranch cs of (keyspaces, er, log) \<Rightarrow>
           (finish er keyspaces, log)))"

section \<open>GetSchemas\<close>

text \<open>
  The loop of \<open>getSchemasForKeyspace\<close> over the tablets: \<open>kt\<close> starts as \<open>nil\<close>
  and is overwritten by each tablet of the keyspace that is serving.
\<close>

fun chooseTablet :: "string \<Rightarrow> tablet option \<Rightarrow> tablet list \<Rightarrow> tablet option" where
  "chooseTablet ks kt [] = kt"
| "chooseTablet ks kt (t # ts) =
     (if Keyspace (Tablet t) \<noteq> ks \<or> State t \<noteq> SERVING then chooseTablet ks kt ts
      else chooseTablet ks (Some t) ts)"

definition getSchemasForKeyspace ::
    "cluster \<Rightarrow> string \<Rightarrow> tablet list \<Rightarrow> pb_schema ret \<times> call list" where
  "getSchemasForKeyspace c ks tablets =
     (case chooseTablet ks None tablets of
        None \<Rightarrow> ((None, None), [])
      | Some kt \<Rightarrow>
          (case Dial c of
             Some err \<Rightarrow> ((None, Some err), [CallDial (ID c)])
           | None \<Rightarrow>
               (case GetSchema c (Alias (Tablet kt)) of
                  Inl err \<Rightarrow>
                    ((None, Some err), [CallDial (ID c), CallGetSchema (ID c) (Alias (Tablet kt))])
                | Inr s \<Rightarrow>
                    ((case s of
                        None \<Rightarrow> (None, None)
                      | Some r \<Rightarrow>
                          (case Schema r of
                             None \<Rightarrow> (None, None)
                           | Some sd \<Rightarrow>
                               (if length (TableDefinitions sd) = 0 then (None, None)
                                else (Some \<lparr>s_Cluster = \<lparr>Id = ID c, Name = cName c\<rparr>,
                                            s_Keyspace = ks,
                                            s_TableDefinitions = TableDefinitions sd\<rparr>,
                                      None)))),
                     [CallDial (ID c), CallGetSchema (ID c) (Alias (Tablet kt))]))))"

definition schemaBranch :: "cluster \<Rightarrow> tablet list \<Rightarrow> string \<Rightarrow> pb_schema branch" where
  "schemaBranch c tablets ks =
     (case getSchemasForKeyspace c ks tablets of
        ((_, Some err), log) \<Rightarrow> ([], [err], log)
      | ((None, None), log) \<Rightarrow> ([], [], log)
      | ((Some ss, None), log) \<Rightarrow> ([ss], [], log))"

text \<open>\<open>getSchemas\<close> returns a slice, whose \<open>nil\<close> is the empty list.\<close>

definition getSchemas ::
    "cluster \<Rightarrow> tablet list \<Rightarrow> (pb_schema list \<times> error option) \<times> call list" where
  "getSchemas c tablets =
     (case Dial c of
        Some err \<Rightarrow> (([], Some err), [CallDial (ID c)])
      | None \<Rightarrow>
          (case VtctldGetKeyspaces c of
             Inl err \<Rightarrow> (([], Some err), [CallDial (ID c), CallGetKeyspaces (ID c)])
           | Inr kss \<Rightarrow>
               (case fanout (schemaBranch c tablets) kss of (schemas, er, log) \<Rightarrow>
                  ((if er \<noteq> [] then ([], Some (AllErrors er)) else (schemas, None)),
                   [CallDial (ID c), CallGetKeyspaces (ID c)] @ log))))"

definition schemasBranch :: "cluster \<Rightarrow> pb_schema branch" where
  "schemasBranch c =
     (case ClusterGetTablets c of
        Inl err \<Rightarrow> ([], [err], [CallGetTablets (ID c)])
      | Inr tablets \<Rightarrow>
          (case getSchemas c tablets of
             ((_, Some err), log) \<Rightarrow> ([], [err], CallGetTablets (ID c) # log)
           | ((ss, None), log) \<Rightarrow> (ss, [], CallGetTablets (ID c) # log)))"

definition GetSchemas :: "api \<Rightarrow> string list \<Rightarrow> pb_schema list ret \<times> call list" where
  "GetSchemas a ClusterIds =
     (case getClustersForRequest a ClusterIds of (cs, _) \<Rightarrow>
        (case fanout schemasBranch cs of (schemas, er, log) \<Rightarrow> (finish er schemas, log)))"

section \<open>VTExplain\<close>

text \<open>
  What \<open>VTExplain\<close> uses from outside this package: \<open>topo.IsInServingGraph\<close>,
  \<open>json.Marshal\<close> on a keyspace vschema and on the shard map, and the explain engine
  (\<open>vtexplain.Init\<close>, \<open>vtexplain.Run\<close>, \<open>vtexplain.ExplainsAsText\<close>).
\<close>

record externals =
  IsInServingGraph :: "tablet_type \<Rightarrow> bool"
  MarshalVSchema :: "vschema_keyspace \<Rightarrow> error + string"
  MarshalShards :: "(string \<rightharpoonup> string) \<Rightarrow> error + string"
  Init :: "string \<Rightarrow> string \<Rightarrow> string \<Rightarrow> error option"
  Run :: "string \<Rightarrow> error + string list"
  ExplainsAsText :: "string list \<Rightarrow> string"

record vtexplain_request =
  req_Cluster :: string
  req_Keyspace :: string
  req_Sql :: string

text \<open>
  A goroutine of \<open>VTExplain\<close> writes its slot, records an error, or dereferences a
  \<open>nil\<close> pointer of the response (\<open>res.Schema\<close>, \<open>res.SrvVSchema\<close>), which panics.
\<close>

datatype task = Slot string | Recorded error | Panicked

datatype 'a outcome = Returns "'a ret" | Panics

fun Join :: "string list \<Rightarrow> string \<Rightarrow> string" where
  "Join [] sep = []"
| "Join [x] sep = x"
| "Join (x # y # zs) sep = x @ sep @ Join (y # zs) sep"

text \<open>\<open>fmt.Sprintf(`{"%s": %s}`, keyspace, json)\<close>\<close>

definition keyed :: "string \<Rightarrow> string \<Rightarrow> string" where
  \<open>keyed ks js = ''{"'' @ ks @ ''": '' @ js @ ''}''\<close>

definition schemaTask :: "cluster \<Rightarrow> tablet \<Rightarrow> task" where
  "schemaTask c tablet =
     (case GetSchema c (Alias (Tablet tablet)) of
        Inl err \<Rightarrow> Recorded err
      | Inr None \<Rightarrow> Panicked
      | Inr (Some res) \<Rightarrow>
          (case Schema res of
             None \<Rightarrow> Panicked
           | Some sd \<Rightarrow> Slot (Join (map td_Schema (TableDefinitions sd)) '';'')))"

definition srvVSchemaTask :: "externals \<Rightarrow> cluster \<Rightarrow> tablet \<Rightarrow> string \<Rightarrow> task" where
  "srvVSchemaTask x c tablet ks =
     (case GetSrvVSchema c (Cell (Alias (Tablet tablet))) of
        Inl err \<Rightarrow> Recorded err
      | Inr res \<Rightarrow>
          (case SrvVSchema res of
             None \<Rightarrow> Panicked
           | Some sv \<Rightarrow>
               (case Keyspaces sv ks of
                  None \<Rightarrow> Recorded (Wrap ErrNoSrvVSchema ('': keyspace '' @ ks))
                | Some ksvs \<Rightarrow>
                    (case MarshalVSchema x ksvs of
                       Inl err \<Rightarrow> Recorded err
                     | Inr ksvsb \<Rightarrow> Slot (keyed ks ksvsb)))))"

fun shardMapOf :: "(string \<rightharpoonup> string) \<Rightarrow> shard list \<Rightarrow> (string \<rightharpoonup> string)" where
  "shardMapOf vtsm [] = vtsm"
| "shardMapOf vtsm (s # ss) = shardMapOf (vtsm(sh_Name s \<mapsto> sh_Shard s)) ss"

definition shardMapTask :: "externals \<Rightarrow> cluster \<Rightarrow> string \<Rightarrow> task" where
  "shardMapTask x c ks =
     (case FindAllShardsInKeyspace c ks of
        Inl err \<Rightarrow> Recorded err
      | Inr shards \<Rightarrow>
          (case MarshalShards x (shardMapOf Map.empty shards) of
             Inl err \<Rightarrow> Recorded err
           | Inr vtsb \<Rightarrow> Slot (keyed ks vtsb)))"

definition recorded :: "task \<Rightarrow> error list" where
  "recorded t = (case t of Recorded err \<Rightarrow> [err] | _ \<Rightarrow> [])"

definition slot :: "task \<Rightarrow> string" where
  "slot t = (case t of Slot s \<Rightarrow> s | _ \<Rightarrow> [])"

text \<open>The part of \<open>VTExplain\<close> after \<open>wg.Wait()\<close>.\<close>

definition explain :: "externals \<Rightarrow> string \<Rightarrow> task \<Rightarrow> task \<Rightarrow> task \<Rightarrow> string outcome" where
  "explain x sql t1 t2 t3 =
     (if t1 = Panicked \<or> t2 = Panicked \<or> t3 = Panicked then Panics
      else if recorded t1 @ recorded t2 @ recorded t3 \<noteq> []
        then Returns (None, Some (AllErrors (recorded t1 @ recorded t2 @ recorded t3)))
      else (case Init x (slot t2) (slot t1) (slot t3) of
              Some err \<Rightarrow> Returns (None, Some err)
            | None \<Rightarrow>
                (case Run x sql of
                   Inl err \<Rightarrow> Returns (None, Some err)
                 | Inr plans \<Rightarrow> Returns (Some (ExplainsAsText x plans), None))))"

definition servingNonMaster :: "externals \<Rightarrow> string \<Rightarrow> tablet \<Rightarrow> bool" where
  "servingNonMaster x ks t \<longleftrightarrow>
     Keyspace (Tablet t) = ks \<and> IsInServingGraph x (Type (Tablet t)) \<and>
     Type (Tablet t) \<noteq> MASTER \<and> State t = SERVING"

definition VTExplain ::
    "externals \<Rightarrow> api \<Rightarrow> vtexplain_request \<Rightarrow> string outcome \<times> call list" where
  "VTExplain x a req =
     (if req_Cluster req = [] then
        (Returns (None, Some (Wrap ErrInvalidRequest '': cluster ID is required'')), [])
      else if req_Keyspace req = [] then
        (Returns (None, Some (Wrap ErrInvalidRequest '': keyspace name is required'')), [])
      else if req_Sql req = [] then
        (Returns (None, Some (Wrap ErrInvalidRequest '': SQL query is required'')), [])
      else
        (case clusterMap a (req_Cluster req) of
           None \<Rightarrow> (Returns (None, Some (Sentinel ErrUnsupportedCluster)), [])
         | Some c \<Rightarrow>
             (case FindTablet c (servingNonMaster x (req_Keyspace req)) of
                Inl err \<Rightarrow> (Returns (None, Some err), [CallFindTablet (ID c)])
              | Inr tablet \<Rightarrow>
                  (case Dial c of
                     Some err \<Rightarrow> (Returns (None, Some err), [CallFindTablet (ID c), CallDial (ID c)])
                   | None \<Rightarrow>
                       (explain x (req_Sql req) (schemaTask c tablet)
                          (srvVSchemaTask x c tablet (req_Keyspace req))
                          (shardMapTask x c (req_Keyspace req)),
                        [CallFindTablet (ID c), CallDial (ID c),
                         CallGetSchema (ID c) (Alias (Tablet tablet)),
                         CallGetSrvVSchema (ID c) (Cell (Alias (Tablet tablet))),
                         CallFindAllShardsInKeyspace (ID c) (req_Keyspace req)])))))"

section \<open>Concrete clusters\<close>

text \<open>
  A small installation on which the theorems below are instantiated: tablets of
  keyspace \<open>ks1\<close>, a cluster whose tablet listing and gate discovery are given and
  whose vtctld answers with one keyspace, one table and a vschema for \<open>ks1\<close>, and an
  API serving that one cluster.
\<close>

definition exTablet :: "string \<Rightarrow> nat \<Rightarrow> serving_state \<Rightarrow> tablet" where
  "exTablet h u st =
     \<lparr>tablet_Cluster = \<lparr>Id = ''c1'', Name = ''one''\<rparr>,
      Tablet = \<lparr>Alias = \<lparr>Cell = ''zone1'', Uid = u\<rparr>, Hostname = h, Keyspace = ''ks1'',
                Type = REPLICA\<rparr>,
      State = st\<rparr>"

definition exSchema :: "table_definition list \<Rightarrow> get_schema_response option" where
  "exSchema tds = Some \<lparr>Schema = Some \<lparr>TableDefinitions = tds\<rparr>\<rparr>"

definition exTable :: table_definition where
  "exTable = \<lparr>td_Name = ''t1'', td_Schema = ''create table t1 (id int)''\<rparr>"

definition exCluster ::
    "(error + tablet list) \<Rightarrow> (error + vtgate list) \<Rightarrow> (error + get_schema_response option)
       \<Rightarrow> cluster" where
  "exCluster tabs gs sch =
     \<lparr>ID = ''c1'', cName = ''one'',
      DiscoverVTGates = gs,
      Dial = None,
      VtctldGetKeyspaces = Inr [''ks1''],
      FindAllShardsInKeyspace = (\<lambda>ks. if ks = ''ks1'' then Inr [] else Inl (Remote ''no keyspace'')),
      ClusterGetTablets = tabs,
      FindTablet = (\<lambda>p. case tabs of
                            Inl err \<Rightarrow> Inl err
                          | Inr ts \<Rightarrow> (case filter p ts of
                                         [] \<Rightarrow> Inl (Sentinel ErrNoTablet)
                                       | t # _ \<Rightarrow> Inr t)),
      GetSchema = (\<lambda>_. sch),
      GetSrvVSchema =
        (\<lambda>_. Inr \<lparr>SrvVSchema = Some \<lparr>Keyspaces = [''ks1'' \<mapsto> VSchemaKeyspace ''{}'']\<rparr>\<rparr>)\<rparr>"

definition exApi :: "cluster \<Rightarrow> api" where
  "exApi c = \<lparr>clusters = [c], clusterMap = [ID c \<mapsto> c], mapOrder = [ID c]\<rparr>"

text \<open>A second cluster \<open>c2\<close>, none of whose remote endpoints can be reached.\<close>

definition exDown :: cluster where
  "exDown =
     \<lparr>ID = ''c2'', cName = ''two'',
      DiscoverVTGates = Inl (Remote ''c2 unreachable''),
      Dial = Some (Remote ''c2 unreachable''),
      VtctldGetKeyspaces = Inl (Remote ''c2 unreachable''),
      FindAllShardsInKeyspace = (\<lambda>_. Inl (Remote ''c2 unreachable'')),
      ClusterGetTablets = Inl (Remote ''c2 unreachable''),
      FindTablet = (\<lambda>_. Inl (Remote ''c2 unreachable'')),
      GetSchema = (\<lambda>_. Inl (Remote ''c2 unreachable'')),
      GetSrvVSchema = (\<lambda>_. Inl (Remote ''c2 unreachable''))\<rparr>"

definition exApi2 :: "cluster \<Rightarrow> cluster \<Rightarrow> api" where
  "exApi2 c d =
     \<lparr>clusters = [c, d], clusterMap = [ID c \<mapsto> c, ID d \<mapsto> d], mapOrder = [ID d, ID c]\<rparr>"

definition exGate :: vtgate where
  "exGate = \<lparr>g_Cell = ''zone1'', g_Hostname = ''gate1'', g_Keyspaces = [''ks1''], g_Pool = ''pool1''\<rparr>"

definition exExternals :: externals where
  "exExternals =
     \<lparr>IsInServingGraph = (\<lambda>t. t = MASTER \<or> t = REPLICA \<or> t = RDONLY),
      MarshalVSchema = (\<lambda>v. case v of VSchemaKeyspace js \<Rightarrow> Inr js),
      MarshalShards = (\<lambda>_. Inr ''{}''),
      Init = (\<lambda>_ _ _. None),
      Run = (\<lambda>sql. Inr [sql]),
      ExplainsAsText = (\<lambda>plans. Join plans '';'')\<rparr>"

section \<open>Properties of the registry and of the fan-out\<close>

lemma lookupClusters_eq:
  "lookupClusters m ids = map (\<lambda>i. the (m i)) (filter (\<lambda>i. m i \<noteq> None) ids)"
  by (induction ids) (auto split: option.splits)

lemma lookupClusters_append:
  "lookupClusters m (xs @ ys) = lookupClusters m xs @ lookupClusters m ys"
  by (simp add: lookupClusters_eq)

lemma fanout_eq:
  "fanout f xs =
     (concat (map (\<lambda>x. fst (f x)) xs), concat (map (\<lambda>x. fst (snd (f x))) xs),
      concat (map (\<lambda>x. snd (snd (f x))) xs))"
  by (induction xs) (auto split: prod.splits)

lemma chooseTablet_acc:
  "chooseTablet ks kt ts =
     (case filter (\<lambda>t. Keyspace (Tablet t) = ks \<and> State t = SERVING) ts of
        [] \<Rightarrow> kt | m \<Rightarrow> Some (last m))"
  by (induction ts arbitrary: kt) (auto split: list.splits)

text \<open>
  C4. \<open>getClustersForRequest\<close> is a function of the API value and the filter. With an
  empty filter it yields the configured cluster slice and the keys of the cluster map
  (every known identifier, once the key order is an enumeration of the map). With a
  non-empty filter it yields the clusters the map has for the identifiers, in the order
  of the filter, and the filter itself; identifiers the map does not have are dropped,
  and no error is part of the result.
\<close>

theorem getClustersForRequest_resolves:
  "getClustersForRequest a [] = (clusters a, mapOrder a) \<and>
   (wf_api a \<longrightarrow> set (snd (getClustersForRequest a [])) = dom (clusterMap a)) \<and>
   (ids \<noteq> [] \<longrightarrow>
      getClustersForRequest a ids =
        (map (\<lambda>i. the (clusterMap a i)) (filter (\<lambda>i. clusterMap a i \<noteq> None) ids), ids))"
  by (simp add: getClustersForRequest_def wf_api_def lookupClusters_eq)

theorem getClustersForRequest_resolves_witness:
  "wf_api (exApi (exCluster (Inr []) (Inr []) (Inr None))) \<and>
   [''zz'', ''c1''] \<noteq> [] \<and>
   set (snd (getClustersForRequest (exApi (exCluster (Inr []) (Inr []) (Inr None))) [])) = {''c1''} \<and>
   getClustersForRequest (exApi (exCluster (Inr []) (Inr []) (Inr None))) [''zz'', ''c1''] =
     ([exCluster (Inr []) (Inr []) (Inr None)], [''zz'', ''c1''])"
  using getClustersForRequest_resolves
          [of "exApi (exCluster (Inr []) (Inr []) (Inr None))" "[''zz'', ''c1'']"]
  by (simp add: wf_api_def exApi_def exCluster_def)

section \<open>Schema discovery\<close>

text \<open>
  C3. For every keyspace and tablet list, the tablet \<open>getSchemasForKeyspace\<close> selects
  is the last tablet of the list, in list order, whose keyspace is the target keyspace
  and whose state is serving; when the vtctld connection is up, the schema is requested
  for the alias of that tablet, so with several serving tablets of the keyspace the last
  one is asked, not the first.
\<close>

theorem serving_tablet_last_wins:
  assumes "m = filter (\<lambda>t. Keyspace (Tablet t) = ks \<and> State t = SERVING) tablets"
    and "m \<noteq> []"
  shows "chooseTablet ks None tablets = Some (last m) \<and>
         (Dial c = None \<longrightarrow>
            snd (getSchemasForKeyspace c ks tablets) =
              [CallDial (ID c), CallGetSchema (ID c) (Alias (Tablet (last m)))])"
proof -
  from assms have kt: "chooseTablet ks None tablets = Some (last m)"
    by (simp add: chooseTablet_acc split: list.splits)
  then show ?thesis
    by (simp add: getSchemasForKeyspace_def split: sum.splits)
qed

theorem serving_tablet_last_wins_witness:
  "chooseTablet ''ks1'' None
     [exTablet ''h1'' 1 SERVING, exTablet ''h2'' 2 SERVING, exTablet ''h3'' 3 NOT_SERVING] =
     Some (exTablet ''h2'' 2 SERVING) \<and>
   snd (getSchemasForKeyspace (exCluster (Inr []) (Inr []) (Inr None)) ''ks1''
     [exTablet ''h1'' 1 SERVING, exTablet ''h2'' 2 SERVING, exTablet ''h3'' 3 NOT_SERVING]) =
     [CallDial ''c1'', CallGetSchema ''c1'' \<lparr>Cell = ''zone1'', Uid = 2\<rparr>]"
  using serving_tablet_last_wins
          [of "[exTablet ''h1'' 1 SERVING, exTablet ''h2'' 2 SERVING]" "''ks1''"
              "[exTablet ''h1'' 1 SERVING, exTablet ''h2'' 2 SERVING, exTablet ''h3'' 3 NOT_SERVING]"
              "exCluster (Inr []) (Inr []) (Inr None)"]
  by (simp add: exTablet_def exCluster_def)

text \<open>
  C10. When a serving tablet was selected, the dial succeeded and the remote
  \<open>GetSchema\<close> call succeeded but answered with no result, with a result without a
  schema, or with a schema of zero table definitions, \<open>getSchemasForKeyspace\<close>
  returns \<open>(nil, nil)\<close>: the keyspace is skipped, with no error, and the missing
  schema is not read.
\<close>

theorem getSchemasForKeyspace_degenerate:
  assumes "chooseTablet ks None tablets = Some kt"
    and "Dial c = None"
    and "GetSchema c (Alias (Tablet kt)) = Inr s"
    and "s = None \<or> (\<exists>r. s = Some r \<and>
           (Schema r = None \<or> (\<exists>sd. Schema r = Some sd \<and> length (TableDefinitions sd) = 0)))"
  shows "fst (getSchemasForKeyspace c ks tablets) = (None, None)"
  using assms by (auto simp: getSchemasForKeyspace_def)

theorem getSchemasForKeyspace_degenerate_witness:
  "fst (getSchemasForKeyspace (exCluster (Inr []) (Inr []) (Inr None)) ''ks1''
          [exTablet ''h1'' 1 SERVING]) = (None, None) \<and>
   fst (getSchemasForKeyspace (exCluster (Inr []) (Inr []) (Inr (Some \<lparr>Schema = None\<rparr>))) ''ks1''
          [exTablet ''h1'' 1 SERVING]) = (None, None) \<and>
   fst (getSchemasForKeyspace (exCluster (Inr []) (Inr []) (Inr (exSchema []))) ''ks1''
          [exTablet ''h1'' 1 SERVING]) = (None, None)"
  using getSchemasForKeyspace_degenerate
          [of "''ks1''" "[exTablet ''h1'' 1 SERVING]" "exTablet ''h1'' 1 SERVING"
              "exCluster (Inr []) (Inr []) (Inr None)" None]
        getSchemasForKeyspace_degenerate
          [of "''ks1''" "[exTablet ''h1'' 1 SERVING]" "exTablet ''h1'' 1 SERVING"
              "exCluster (Inr []) (Inr []) (Inr (Some \<lparr>Schema = None\<rparr>))" "Some \<lparr>Schema = None\<rparr>"]
        getSchemasForKeyspace_degenerate
          [of "''ks1''" "[exTablet ''h1'' 1 SERVING]" "exTablet ''h1'' 1 SERVING"
              "exCluster (Inr []) (Inr []) (Inr (exSchema []))" "exSchema []"]
  by (simp add: exTablet_def exCluster_def exSchema_def)

lemma getSchemasForKeyspace_Some:
  assumes "fst (getSchemasForKeyspace c ks tablets) = (Some s, e)"
  shows "s_Keyspace s = ks \<and> s_Cluster s = \<lparr>Id = ID c, Name = cName c\<rparr> \<and>
         s_TableDefinitions s \<noteq> [] \<and>
         (\<exists>kt r sd. chooseTablet ks None tablets = Some kt \<and>
            GetSchema c (Alias (Tablet kt)) = Inr (Some r) \<and> Schema r = Some sd \<and>
            s_TableDefinitions s = TableDefinitions sd)"
  using assms
  by (auto simp: getSchemasForKeyspace_def split: option.splits sum.splits if_splits)

lemma schemaBranch_mem:
  assumes "s \<in> set (fst (schemaBranch c tablets ks))"
  shows "\<exists>e. fst (getSchemasForKeyspace c ks tablets) = (Some s, e)"
  using assms
  by (cases "getSchemasForKeyspace c ks tablets")
     (auto simp: schemaBranch_def split: option.splits prod.splits)

lemma getSchemas_mem:
  assumes "s \<in> set (fst (fst (getSchemas c tablets)))"
  shows "\<exists>ks e. fst (getSchemasForKeyspace c ks tablets) = (Some s, e)"
proof (cases "Dial c")
  case (Some err)
  with assms show ?thesis by (simp add: getSchemas_def)
next
  case None
  show ?thesis
  proof (cases "VtctldGetKeyspaces c")
    case (Inl err)
    with None assms show ?thesis by (simp add: getSchemas_def)
  next
    case (Inr kss)
    obtain schemas er log where f: "fanout (schemaBranch c tablets) kss = (schemas, er, log)"
      by (cases "fanout (schemaBranch c tablets) kss") auto
    with None Inr assms have "s \<in> set schemas"
      by (simp add: getSchemas_def split: if_splits)
    with f have "s \<in> set (fst (fanout (schemaBranch c tablets) kss))" by simp
    then obtain ks where "s \<in> set (fst (schemaBranch c tablets ks))"
      by (auto simp: fanout_eq)
    then show ?thesis using schemaBranch_mem by blast
  qed
qed

lemma schemasBranch_mem:
  assumes "s \<in> set (fst (schemasBranch c))"
  shows "\<exists>tablets ks e. ClusterGetTablets c = Inr tablets \<and>
           fst (getSchemasForKeyspace c ks tablets) = (Some s, e)"
proof -
  from assms obtain tablets where t: "ClusterGetTablets c = Inr tablets"
    and "s \<in> set (fst (fst (getSchemas c tablets)))"
    by (cases "ClusterGetTablets c")
       (auto simp: schemasBranch_def split: option.splits prod.splits)
  then show ?thesis using getSchemas_mem by blast
qed

lemma GetSchemas_mem:
  assumes "fst (GetSchemas a ids) = (Some schemas, e)" and "s \<in> set schemas"
  shows "\<exists>c\<in>set (fst (getClustersForRequest a ids)). s \<in> set (fst (schemasBranch c))"
  using assms
  by (auto simp: GetSchemas_def finish_def fanout_eq split: prod.splits if_splits)

lemma schemaBranch_skip:
  assumes "fst (getSchemasForKeyspace c ks tablets) = (None, None)"
  shows "fst (schemaBranch c tablets ks) = [] \<and> fst (snd (schemaBranch c tablets ks)) = []"
  using assms
  by (cases "getSchemasForKeyspace c ks tablets") (auto simp: schemaBranch_def)

text \<open>
  C6. A keyspace with no serving tablet in the tablet list, and a keyspace whose fetched
  schema has zero table definitions, are skipped silently: the per-keyspace fetch yields
  no entry and no error (and, with no serving tablet, issues no call), so nothing is
  appended and nothing is recorded for it. Every entry of a \<open>GetSchemas\<close> response
  has at least one table definition, and comes from a selected cluster whose tablet list
  has a serving tablet of the entry's keyspace, the one whose schema the entry carries.
\<close>

theorem schemas_have_tables:
  "(chooseTablet ks None tablets = None \<longrightarrow>
      getSchemasForKeyspace c ks tablets = ((None, None), []) \<and>
      fst (schemaBranch c tablets ks) = [] \<and> fst (snd (schemaBranch c tablets ks)) = []) \<and>
   (chooseTablet ks None tablets = Some kt \<and> Dial c = None \<and>
    GetSchema c (Alias (Tablet kt)) = Inr (Some r) \<and> Schema r = Some sd \<and>
    TableDefinitions sd = [] \<longrightarrow>
      fst (getSchemasForKeyspace c ks tablets) = (None, None) \<and>
      fst (schemaBranch c tablets ks) = [] \<and> fst (snd (schemaBranch c tablets ks)) = []) \<and>
   (fst (GetSchemas a ids) = (Some schemas, e) \<and> s \<in> set schemas \<longrightarrow>
      s_TableDefinitions s \<noteq> [] \<and>
      (\<exists>c'\<in>set (fst (getClustersForRequest a ids)). \<exists>tablets' kt' r' sd'.
         ClusterGetTablets c' = Inr tablets' \<and>
         chooseTablet (s_Keyspace s) None tablets' = Some kt' \<and>
         GetSchema c' (Alias (Tablet kt')) = Inr (Some r') \<and> Schema r' = Some sd' \<and>
         TableDefinitions sd' \<noteq> [] \<and> s_TableDefinitions s = TableDefinitions sd'))"
proof (intro conjI impI)
  assume n: "chooseTablet ks None tablets = None"
  then show g: "getSchemasForKeyspace c ks tablets = ((None, None), [])"
    by (simp add: getSchemasForKeyspace_def)
  then have "fst (getSchemasForKeyspace c ks tablets) = (None, None)" by simp
  then show "fst (schemaBranch c tablets ks) = []"
    and "fst (snd (schemaBranch c tablets ks)) = []"
    using schemaBranch_skip by blast+
next
  assume h: "chooseTablet ks None tablets = Some kt \<and> Dial c = None \<and>
    GetSchema c (Alias (Tablet kt)) = Inr (Some r) \<and> Schema r = Some sd \<and>
    TableDefinitions sd = []"
  then show g: "fst (getSchemasForKeyspace c ks tablets) = (None, None)"
    by (simp add: getSchemasForKeyspace_def)
  then show "fst (schemaBranch c tablets ks) = []"
    and "fst (snd (schemaBranch c tablets ks)) = []"
    using schemaBranch_skip by blast+
next
  assume h: "fst (GetSchemas a ids) = (Some schemas, e) \<and> s \<in> set schemas"
  then obtain c' where c': "c' \<in> set (fst (getClustersForRequest a ids))"
    and "s \<in> set (fst (schemasBranch c'))"
    using GetSchemas_mem by blast
  then obtain tablets' ks' e' where t: "ClusterGetTablets c' = Inr tablets'"
    and "fst (getSchemasForKeyspace c' ks' tablets') = (Some s, e')"
    using schemasBranch_mem by blast
  then have p: "s_Keyspace s = ks' \<and> s_TableDefinitions s \<noteq> [] \<and>
         (\<exists>kt r sd. chooseTablet ks' None tablets' = Some kt \<and>
            GetSchema c' (Alias (Tablet kt)) = Inr (Some r) \<and> Schema r = Some sd \<and>
            s_TableDefinitions s = TableDefinitions sd)"
    using getSchemasForKeyspace_Some by blast
  then show "s_TableDefinitions s \<noteq> []" by simp
  from p obtain kt' r' sd' where q: "chooseTablet (s_Keyspace s) None tablets' = Some kt'"
    "GetSchema c' (Alias (Tablet kt')) = Inr (Some r')" "Schema r' = Some sd'"
    "s_TableDefinitions s = TableDefinitions sd'"
    by blast
  with p have "TableDefinitions sd' \<noteq> []" by simp
  with c' t q show "\<exists>c'\<in>set (fst (getClustersForRequest a ids)). \<exists>tablets' kt' r' sd'.
         ClusterGetTablets c' = Inr tablets' \<and>
         chooseTablet (s_Keyspace s) None tablets' = Some kt' \<and>
         GetSchema c' (Alias (Tablet kt')) = Inr (Some r') \<and> Schema r' = Some sd' \<and>
         TableDefinitions sd' \<noteq> [] \<and> s_TableDefinitions s = TableDefinitions sd'"
    by blast
qed

theorem schemas_have_tables_witness:
  "getSchemasForKeyspace (exCluster (Inr []) (Inr []) (Inr (exSchema [exTable]))) ''ks1''
      [exTablet ''h1'' 1 NOT_SERVING] = ((None, None), []) \<and>
   fst (getSchemasForKeyspace (exCluster (Inr []) (Inr []) (Inr (exSchema []))) ''ks1''
      [exTablet ''h1'' 1 SERVING]) = (None, None) \<and>
   fst (GetSchemas (exApi (exCluster (Inr [exTablet ''h1'' 1 SERVING]) (Inr [])
                             (Inr (exSchema [exTable])))) []) =
     (Some [\<lparr>s_Cluster = \<lparr>Id = ''c1'', Name = ''one''\<rparr>, s_Keyspace = ''ks1'',
             s_TableDefinitions = [exTable]\<rparr>], None) \<and>
   s_TableDefinitions \<lparr>s_Cluster = \<lparr>Id = ''c1'', Name = ''one''\<rparr>, s_Keyspace = ''ks1'',
             s_TableDefinitions = [exTable]\<rparr> \<noteq> []"
  using schemas_have_tables
          [where ks = "''ks1''" and tablets = "[exTablet ''h1'' 1 NOT_SERVING]"
             and c = "exCluster (Inr []) (Inr []) (Inr (exSchema [exTable]))"
             and a = "exApi (exCluster (Inr [exTablet ''h1'' 1 SERVING]) (Inr [])
                             (Inr (exSchema [exTable])))"
             and ids = "[]"
             and schemas = "[\<lparr>s_Cluster = \<lparr>Id = ''c1'', Name = ''one''\<rparr>, s_Keyspace = ''ks1'',
                              s_TableDefinitions = [exTable]\<rparr>]"
             and e = None
             and s = "\<lparr>s_Cluster = \<lparr>Id = ''c1'', Name = ''one''\<rparr>, s_Keyspace = ''ks1'',
                              s_TableDefinitions = [exTable]\<rparr>"]
        schemas_have_tables
          [where ks = "''ks1''" and tablets = "[exTablet ''h1'' 1 SERVING]"
             and c = "exCluster (Inr []) (Inr []) (Inr (exSchema []))"
             and kt = "exTablet ''h1'' 1 SERVING"
             and r = "\<lparr>Schema = Some \<lparr>TableDefinitions = []\<rparr>\<rparr>"
             and sd = "\<lparr>TableDefinitions = []\<rparr>"]
  by (simp add: GetSchemas_def getClustersForRequest_def exApi_def schemasBranch_def
        getSchemas_def schemaBranch_def getSchemasForKeyspace_def finish_def exCluster_def
        exTablet_def exSchema_def)

section \<open>All-or-nothing\<close>

lemma finish_failed: "er \<noteq> [] \<Longrightarrow> finish er resp = (None, Some (AllErrors er))"
  by (simp add: finish_def)

lemma finish_shape: "finish er resp \<noteq> (Some r, Some e)"
  by (simp add: finish_def)

lemma GetGates_eq:
  "GetGates a ids =
     (finish (concat (map (\<lambda>c. fst (snd (gatesBranch c))) (fst (getClustersForRequest a ids))))
        (concat (map (\<lambda>c. fst (gatesBranch c)) (fst (getClustersForRequest a ids)))),
      concat (map (\<lambda>c. snd (snd (gatesBranch c))) (fst (getClustersForRequest a ids))))"
  by (simp add: GetGates_def fanout_eq split: prod.splits)

lemma GetKeyspaces_eq:
  "GetKeyspaces a ids =
     (finish (concat (map (\<lambda>c. fst (snd (keyspacesBranch c))) (fst (getClustersForRequest a ids))))
        (concat (map (\<lambda>c. fst (keyspacesBranch c)) (fst (getClustersForRequest a ids)))),
      concat (map (\<lambda>c. snd (snd (keyspacesBranch c))) (fst (getClustersForRequest a ids))))"
  by (simp add: GetKeyspaces_def fanout_eq split: prod.splits)

lemma GetSchemas_eq:
  "GetSchemas a ids =
     (finish (concat (map (\<lambda>c. fst (snd (schemasBranch c))) (fst (getClustersForRequest a ids))))
        (concat (map (\<lambda>c. fst (schemasBranch c)) (fst (getClustersForRequest a ids)))),
      concat (map (\<lambda>c. snd (snd (schemasBranch c))) (fst (getClustersForRequest a ids))))"
  by (simp add: GetSchemas_def fanout_eq split: prod.splits)

lemma GetTablets_eq:
  "GetTablets a ids =
     (finish (concat (map (\<lambda>c. fst (snd (tabletsBranch c))) (fst (getClustersForRequest a ids))))
        (concat (map (\<lambda>c. fst (tabletsBranch c)) (fst (getClustersForRequest a ids)))),
      concat (map (\<lambda>c. snd (snd (tabletsBranch c))) (fst (getClustersForRequest a ids))))"
  by (simp add: GetTablets_def fanout_eq split: prod.splits)

text \<open>The switch of \<open>GetTablet\<close> on the number of tablets found.\<close>

lemma GetTablet_eq:
  "GetTablet a h ids =
     ((let er = concat (map (\<lambda>c. fst (snd (tabletBranch h c))) (fst (getClustersForRequest a ids)));
           tablets = concat (map (\<lambda>c. fst (tabletBranch h c)) (fst (getClustersForRequest a ids)));
           eids = snd (getClustersForRequest a ids)
       in if er \<noteq> [] then (None, Some (AllErrors er))
          else (case tablets of
                  [] \<Rightarrow> (None, Some (VtError Code_NOT_FOUND tabletFmt
                           [ArgSentinel ErrNoTablet, ArgString h, ArgStrings eids]))
                | [t] \<Rightarrow> (Some t, None)
                | _ \<Rightarrow> (None, Some (VtError Code_NOT_FOUND tabletFmt
                           [ArgSentinel ErrAmbiguousTablet, ArgString h, ArgStrings eids])))),
      concat (map (\<lambda>c. snd (snd (tabletBranch h c))) (fst (getClustersForRequest a ids))))"
proof -
  obtain cs eids where g: "getClustersForRequest a ids = (cs, eids)"
    by (cases "getClustersForRequest a ids") auto
  show ?thesis
    by (simp add: GetTablet_def g fanout_eq Let_def)
qed

lemma GetTablet_shape: "fst (GetTablet a h ids) \<noteq> (Some r, Some e)"
  by (simp add: GetTablet_eq Let_def split: list.splits)

lemma explain_shape: "explain x sql t1 t2 t3 \<noteq> Returns (Some r, Some e)"
  by (simp add: explain_def split: option.splits sum.splits)

lemma VTExplain_shape: "fst (VTExplain x a req) \<noteq> Returns (Some r, Some e)"
  by (simp add: VTExplain_def explain_shape split: option.splits sum.splits)

lemma VTExplain_tasks:
  assumes "req_Cluster req \<noteq> []" "req_Keyspace req \<noteq> []" "req_Sql req \<noteq> []"
    and "clusterMap a (req_Cluster req) = Some c"
    and "FindTablet c (servingNonMaster x (req_Keyspace req)) = Inr tablet"
    and "Dial c = None"
  shows "fst (VTExplain x a req) =
           explain x (req_Sql req) (schemaTask c tablet)
             (srvVSchemaTask x c tablet (req_Keyspace req))
             (shardMapTask x c (req_Keyspace req))"
  using assms by (simp add: VTExplain_def)

text \<open>
  The all-or-nothing law on the runs that return. For each of \<open>GetGates\<close>,
  \<open>GetKeyspaces\<close>, \<open>GetSchemas\<close>, \<open>GetTablets\<close> and \<open>GetTablet\<close>: if the
  goroutine of at least one selected cluster records an error, the operation returns
  \<open>nil\<close> with the combined error over everything recorded, whatever the other
  goroutines appended. For \<open>VTExplain\<close>: once the request reaches the three fetches,
  if at least one of them records an error and none of them panics, the operation returns
  \<open>nil\<close> with the combined error. No operation returns a result together with an
  error.
\<close>

theorem all_or_nothing:
  assumes cs: "cs = fst (getClustersForRequest a ids)"
  shows
  "((\<exists>c\<in>set cs. fst (snd (gatesBranch c)) \<noteq> []) \<longrightarrow>
      fst (GetGates a ids) = (None, Some (AllErrors (concat (map (\<lambda>c. fst (snd (gatesBranch c))) cs))))) \<and>
   ((\<exists>c\<in>set cs. fst (snd (keyspacesBranch c)) \<noteq> []) \<longrightarrow>
      fst (GetKeyspaces a ids) = (None, Some (AllErrors (concat (map (\<lambda>c. fst (snd (keyspacesBranch c))) cs))))) \<and>
   ((\<exists>c\<in>set cs. fst (snd (schemasBranch c)) \<noteq> []) \<longrightarrow>
      fst (GetSchemas a ids) = (None, Some (AllErrors (concat (map (\<lambda>c. fst (snd (schemasBranch c))) cs))))) \<and>
   ((\<exists>c\<in>set cs. fst (snd (tabletsBranch c)) \<noteq> []) \<longrightarrow>
      fst (GetTablets a ids) = (None, Some (AllErrors (concat (map (\<lambda>c. fst (snd (tabletsBranch c))) cs))))) \<and>
   ((\<exists>c\<in>set cs. fst (snd (tabletBranch h c)) \<noteq> []) \<longrightarrow>
      fst (GetTablet a h ids) =
        (None, Some (AllErrors (concat (map (\<lambda>c. fst (snd (tabletBranch h c))) cs))))) \<and>
   (req_Cluster req \<noteq> [] \<and> req_Keyspace req \<noteq> [] \<and> req_Sql req \<noteq> [] \<and>
    clusterMap a (req_Cluster req) = Some c \<and>
    FindTablet c (servingNonMaster x (req_Keyspace req)) = Inr tablet \<and> Dial c = None \<and>
    t1 = schemaTask c tablet \<and> t2 = srvVSchemaTask x c tablet (req_Keyspace req) \<and>
    t3 = shardMapTask x c (req_Keyspace req) \<and>
    t1 \<noteq> Panicked \<and> t2 \<noteq> Panicked \<and> t3 \<noteq> Panicked \<and>
    recorded t1 @ recorded t2 @ recorded t3 \<noteq> [] \<longrightarrow>
      fst (VTExplain x a req) =
        Returns (None, Some (AllErrors (recorded t1 @ recorded t2 @ recorded t3)))) \<and>
   fst (GetGates a ids) \<noteq> (Some rg, Some e) \<and>
   fst (GetKeyspaces a ids) \<noteq> (Some rk, Some e) \<and>
   fst (GetSchemas a ids) \<noteq> (Some rs, Some e) \<and>
   fst (GetTablets a ids) \<noteq> (Some rt, Some e) \<and>
   fst (GetTablet a h ids) \<noteq> (Some r1, Some e) \<and>
   fst (VTExplain x a req) \<noteq> Returns (Some rx, Some e)"
proof -
  have gates: "(\<exists>c\<in>set cs. fst (snd (gatesBranch c)) \<noteq> []) \<longrightarrow>
      fst (GetGates a ids) = (None, Some (AllErrors (concat (map (\<lambda>c. fst (snd (gatesBranch c))) cs))))"
    unfolding cs GetGates_eq by (auto intro!: finish_failed)
  have keyspaces: "(\<exists>c\<in>set cs. fst (snd (keyspacesBranch c)) \<noteq> []) \<longrightarrow>
      fst (GetKeyspaces a ids) = (None, Some (AllErrors (concat (map (\<lambda>c. fst (snd (keyspacesBranch c))) cs))))"
    unfolding cs GetKeyspaces_eq by (auto intro!: finish_failed)
  have schemas: "(\<exists>c\<in>set cs. fst (snd (schemasBranch c)) \<noteq> []) \<longrightarrow>
      fst (GetSchemas a ids) = (None, Some (AllErrors (concat (map (\<lambda>c. fst (snd (schemasBranch c))) cs))))"
    unfolding cs GetSchemas_eq by (auto intro!: finish_failed)
  have tablets: "(\<exists>c\<in>set cs. fst (snd (tabletsBranch c)) \<noteq> []) \<longrightarrow>
      fst (GetTablets a ids) = (None, Some (AllErrors (concat (map (\<lambda>c. fst (snd (tabletsBranch c))) cs))))"
    unfolding cs GetTablets_eq by (auto intro!: finish_failed)
  have tablet: "(\<exists>c\<in>set cs. fst (snd (tabletBranch h c)) \<noteq> []) \<longrightarrow>
      fst (GetTablet a h ids) =
        (None, Some (AllErrors (concat (map (\<lambda>c. fst (snd (tabletBranch h c))) cs))))"
    unfolding cs GetTablet_eq by (auto simp: Let_def)
  have vtexplain: "req_Cluster req \<noteq> [] \<and> req_Keyspace req \<noteq> [] \<and> req_Sql req \<noteq> [] \<and>
    clusterMap a (req_Cluster req) = Some c \<and>
    FindTablet c (servingNonMaster x (req_Keyspace req)) = Inr tablet \<and> Dial c = None \<and>
    t1 = schemaTask c tablet \<and> t2 = srvVSchemaTask x c tablet (req_Keyspace req) \<and>
    t3 = shardMapTask x c (req_Keyspace req) \<and>
    t1 \<noteq> Panicked \<and> t2 \<noteq> Panicked \<and> t3 \<noteq> Panicked \<and>
    recorded t1 @ recorded t2 @ recorded t3 \<noteq> [] \<longrightarrow>
      fst (VTExplain x a req) =
        Returns (None, Some (AllErrors (recorded t1 @ recorded t2 @ recorded t3)))"
    by (auto simp: VTExplain_tasks explain_def)
  show ?thesis
    using gates keyspaces schemas tablets tablet vtexplain
    by (simp add: GetGates_eq GetKeyspaces_eq GetSchemas_eq GetTablets_eq finish_shape
          GetTablet_shape VTExplain_shape del: concat_eq_Nil_conv)
qed

theorem all_or_nothing_witness:
  "fst (gatesBranch (exCluster (Inr [exTablet ''h1'' 1 SERVING]) (Inr [exGate]) (Inr (exSchema [exTable])))) \<noteq> [] \<and>
   fst (GetGates (exApi2
          (exCluster (Inr [exTablet ''h1'' 1 SERVING]) (Inr [exGate]) (Inr (exSchema [exTable])))
          exDown) []) =
     (None, Some (AllErrors [Remote ''c2 unreachable''])) \<and>
   fst (GetKeyspaces (exApi2
          (exCluster (Inr [exTablet ''h1'' 1 SERVING]) (Inr [exGate]) (Inr (exSchema [exTable])))
          exDown) []) =
     (None, Some (AllErrors [Remote ''c2 unreachable''])) \<and>
   fst (GetSchemas (exApi2
          (exCluster (Inr [exTablet ''h1'' 1 SERVING]) (Inr [exGate]) (Inr (exSchema [exTable])))
          exDown) []) =
     (None, Some (AllErrors [Remote ''c2 unreachable''])) \<and>
   fst (GetTablets (exApi2
          (exCluster (Inr [exTablet ''h1'' 1 SERVING]) (Inr [exGate]) (Inr (exSchema [exTable])))
          exDown) []) =
     (None, Some (AllErrors [Remote ''c2 unreachable''])) \<and>
   fst (GetTablet (exApi2
          (exCluster (Inr [exTablet ''h1'' 1 SERVING]) (Inr [exGate]) (Inr (exSchema [exTable])))
          exDown) ''h1'' []) =
     (None, Some (AllErrors [Remote ''c2 unreachable''])) \<and>
   fst (VTExplain exExternals (exApi (exCluster (Inr [exTablet ''h1'' 1 SERVING]) (Inr [exGate]) (Inl (Remote ''schema unavailable'')))) \<lparr>req_Cluster = ''c1'', req_Keyspace = ''ks1'', req_Sql = ''select 1''\<rparr>) =
     Returns (None, Some (AllErrors [Remote ''schema unavailable'']))"
proof -
  let ?good = "exCluster (Inr [exTablet ''h1'' 1 SERVING]) (Inr [exGate]) (Inr (exSchema [exTable]))"
  let ?a = "exApi2 ?good exDown"
  let ?c = "exCluster (Inr [exTablet ''h1'' 1 SERVING]) (Inr [exGate]) (Inl (Remote ''schema unavailable''))"
  let ?req = "\<lparr>req_Cluster = ''c1'', req_Keyspace = ''ks1'', req_Sql = ''select 1''\<rparr>"
  have cs: "[?good, exDown] = fst (getClustersForRequest ?a [])"
    by (simp add: getClustersForRequest_def exApi2_def)
  note T = all_or_nothing [OF cs, where h = "''h1''"]
  have g: "fst (gatesBranch ?good) \<noteq> []"
    by (simp add: gatesBranch_def exCluster_def)
  have "fst (snd (gatesBranch ?good)) = []" "fst (snd (gatesBranch exDown)) = [Remote ''c2 unreachable'']"
    by (simp_all add: gatesBranch_def exCluster_def exDown_def)
  with T have GetGates: "fst (GetGates ?a []) = (None, Some (AllErrors [Remote ''c2 unreachable'']))"
    by simp

  have "fst (snd (keyspacesBranch ?good)) = []" "fst (snd (keyspacesBranch exDown)) = [Remote ''c2 unreachable'']"
    by (simp_all add: keyspacesBranch_def exCluster_def exDown_def shardsBranch_def fanout_eq)
  with T have GetKeyspaces: "fst (GetKeyspaces ?a []) = (None, Some (AllErrors [Remote ''c2 unreachable'']))"
    by simp

  have "fst (snd (schemasBranch ?good)) = []" "fst (snd (schemasBranch exDown)) = [Remote ''c2 unreachable'']"
    by (simp_all add: schemasBranch_def exCluster_def exDown_def getSchemas_def schemaBranch_def getSchemasForKeyspace_def fanout_eq exTablet_def exSchema_def)
  with T have GetSchemas: "fst (GetSchemas ?a []) = (None, Some (AllErrors [Remote ''c2 unreachable'']))"
    by simp

  have "fst (snd (tabletsBranch ?good)) = []" "fst (snd (tabletsBranch exDown)) = [Remote ''c2 unreachable'']"
    by (simp_all add: tabletsBranch_def exCluster_def exDown_def)
  with T have GetTablets: "fst (GetTablets ?a []) = (None, Some (AllErrors [Remote ''c2 unreachable'']))"
    by simp

  have "fst (snd (tabletBranch ''h1'' ?good)) = []" "fst (snd (tabletBranch ''h1'' exDown)) = [Remote ''c2 unreachable'']"
    by (simp_all add: tabletBranch_def exCluster_def exDown_def)
  with T have GetTablet: "fst (GetTablet ?a ''h1'' []) = (None, Some (AllErrors [Remote ''c2 unreachable'']))"
    by simp

  have cx: "[?c] = fst (getClustersForRequest (exApi ?c) [])"
    by (simp add: getClustersForRequest_def exApi_def)
  have t1: "schemaTask ?c (exTablet ''h1'' 1 SERVING) = Recorded (Remote ''schema unavailable'')"
    by (simp add: schemaTask_def exCluster_def)
  have t2: "srvVSchemaTask exExternals ?c (exTablet ''h1'' 1 SERVING) ''ks1'' = Slot (keyed ''ks1'' ''{}'')"
    by (simp add: srvVSchemaTask_def exCluster_def exExternals_def)
  have t3: "shardMapTask exExternals ?c ''ks1'' = Slot (keyed ''ks1'' ''{}'')"
    by (simp add: shardMapTask_def exCluster_def exExternals_def)
  have ft: "FindTablet ?c (servingNonMaster exExternals ''ks1'') = Inr (exTablet ''h1'' 1 SERVING)"
    by (simp add: exCluster_def servingNonMaster_def exExternals_def exTablet_def)
  have "clusterMap (exApi ?c) ''c1'' = Some ?c" "Dial ?c = None"
    by (simp_all add: exApi_def exCluster_def)
  with t1 t2 t3 ft
    all_or_nothing [OF cx, where x = exExternals and req = ?req and c = ?c
      and tablet = "exTablet ''h1'' 1 SERVING"
      and ?t1.0 = "Recorded (Remote ''schema unavailable'')"
      and ?t2.0 = "Slot (keyed ''ks1'' ''{}'')" and ?t3.0 = "Slot (keyed ''ks1'' ''{}'')"]
  have VTExplain: "fst (VTExplain exExternals (exApi ?c) ?req) =
     Returns (None, Some (AllErrors [Remote ''schema unavailable'']))"
    by (simp add: recorded_def)
  from g GetGates GetKeyspaces GetSchemas GetTablets GetTablet VTExplain show ?thesis
    by simp
qed

text \<open>
  C1. If at least one concurrent branch records an error, the operation returns \<open>nil\<close>
  with the combined error. \<open>VTExplain\<close> breaks this: its schema fetch reads
  \<open>res.Schema.TableDefinitions\<close> without the \<open>nil\<close> checks that
  \<open>getSchemasForKeyspace\<close> makes on the same response. On a cluster whose serving
  vschema has no entry for the keyspace and whose \<open>GetSchema\<close> answers with a response
  without a schema, the vschema fetch records the missing-vschema error, the schema fetch
  panics, and the call returns nothing, after all five remote calls were issued.
\<close>

theorem VTExplain_error_then_panic:
  "srvVSchemaTask exExternals ((exCluster (Inr [exTablet ''h1'' 5 SERVING]) (Inr []) (Inr (Some \<lparr>Schema = None\<rparr>)))
        \<lparr>GetSrvVSchema := (\<lambda>_. Inr \<lparr>SrvVSchema = Some \<lparr>Keyspaces = Map.empty\<rparr>\<rparr>)\<rparr>) (exTablet ''h1'' 5 SERVING) ''ks1'' =
     Recorded (Wrap ErrNoSrvVSchema '': keyspace ks1'') \<and>
   schemaTask ((exCluster (Inr [exTablet ''h1'' 5 SERVING]) (Inr []) (Inr (Some \<lparr>Schema = None\<rparr>)))
        \<lparr>GetSrvVSchema := (\<lambda>_. Inr \<lparr>SrvVSchema = Some \<lparr>Keyspaces = Map.empty\<rparr>\<rparr>)\<rparr>) (exTablet ''h1'' 5 SERVING) = Panicked \<and>
   VTExplain exExternals (exApi ((exCluster (Inr [exTablet ''h1'' 5 SERVING]) (Inr []) (Inr (Some \<lparr>Schema = None\<rparr>)))
        \<lparr>GetSrvVSchema := (\<lambda>_. Inr \<lparr>SrvVSchema = Some \<lparr>Keyspaces = Map.empty\<rparr>\<rparr>)\<rparr>)) \<lparr>req_Cluster = ''c1'', req_Keyspace = ''ks1'', req_Sql = ''select 1''\<rparr> =
     (Panics,
      [CallFindTablet ''c1'', CallDial ''c1'', CallGetSchema ''c1'' \<lparr>Cell = ''zone1'', Uid = 5\<rparr>,
       CallGetSrvVSchema ''c1'' ''zone1'', CallFindAllShardsInKeyspace ''c1'' ''ks1''])"
  by (simp add: VTExplain_def explain_def schemaTask_def srvVSchemaTask_def shardMapTask_def
        exApi_def exCluster_def exExternals_def servingNonMaster_def exTablet_def)

section \<open>Filters of unknown and of repeated identifiers\<close>

text \<open>
  C5. For every cluster-id filter that names identifiers, all of them unknown to the
  registry, the resolved working set is empty, no remote call is issued, and each of
  \<open>GetGates\<close>, \<open>GetKeyspaces\<close>, \<open>GetSchemas\<close> and \<open>GetTablets\<close> returns a
  response with an empty result list and no error.
\<close>

theorem unknown_filter_empty:
  assumes "ids \<noteq> []" and "\<forall>i\<in>set ids. clusterMap a i = None"
  shows "getClustersForRequest a ids = ([], ids) \<and>
         GetGates a ids = ((Some [], None), []) \<and>
         GetKeyspaces a ids = ((Some [], None), []) \<and>
         GetSchemas a ids = ((Some [], None), []) \<and>
         GetTablets a ids = ((Some [], None), [])"
proof -
  from assms have "getClustersForRequest a ids = ([], ids)"
    by (simp add: getClustersForRequest_def lookupClusters_eq)
  then show ?thesis
    by (simp add: GetGates_def GetKeyspaces_def GetSchemas_def GetTablets_def finish_def)
qed

theorem unknown_filter_empty_witness:
  "[''zz'', ''yy''] \<noteq> [] \<and>
   getClustersForRequest (exApi2 (exCluster (Inr []) (Inr []) (Inr None)) exDown) [''zz'', ''yy''] =
     ([], [''zz'', ''yy'']) \<and>
   GetGates (exApi2 (exCluster (Inr []) (Inr []) (Inr None)) exDown) [''zz'', ''yy''] = ((Some [], None), []) \<and>
   GetKeyspaces (exApi2 (exCluster (Inr []) (Inr []) (Inr None)) exDown) [''zz'', ''yy''] = ((Some [], None), []) \<and>
   GetSchemas (exApi2 (exCluster (Inr []) (Inr []) (Inr None)) exDown) [''zz'', ''yy''] = ((Some [], None), []) \<and>
   GetTablets (exApi2 (exCluster (Inr []) (Inr []) (Inr None)) exDown) [''zz'', ''yy''] = ((Some [], None), [])"
proof -
  have h: "\<forall>i\<in>set [''zz'', ''yy'']. clusterMap (exApi2 (exCluster (Inr []) (Inr []) (Inr None)) exDown) i = None"
    by (simp add: exApi2_def exCluster_def exDown_def)
  have n: "[''zz'', ''yy''] \<noteq> []" by simp
  from unknown_filter_empty [OF n h] show ?thesis by simp
qed

lemma switch_many:
  "2 \<le> length l \<Longrightarrow> (case l of [] \<Rightarrow> x | [u] \<Rightarrow> y u | _ \<Rightarrow> z) = z"
  by (cases l rule: list.exhaust) (auto split: list.splits)

lemma tabletBranch_ok:
  "ClusterGetTablets c = Inr ts \<Longrightarrow>
   tabletBranch h c = (filter (\<lambda>t. Hostname (Tablet t) = h) ts, [], [CallGetTablets (ID c)])"
  by (simp add: tabletBranch_def)

lemma tabletBranch_log: "snd (snd (tabletBranch h c)) = [CallGetTablets (ID c)]"
  by (simp add: tabletBranch_def split: sum.splits)

lemma tabletBranch_errs:
  "\<not> isl (ClusterGetTablets c) \<Longrightarrow> fst (snd (tabletBranch h c)) = []"
  by (cases "ClusterGetTablets c") (simp_all add: tabletBranch_def)

text \<open>
  C9. A filter in which a known identifier occurs twice resolves to a working set
  with that cluster once per occurrence, and \<open>GetTablet\<close> lists the tablets of every
  element of the working set, so once per occurrence. When all listings succeed and the
  hostname is that of exactly one tablet of the repeated cluster, \<open>GetTablet\<close> fails
  with the ambiguous-tablet error, whereas with the identifier given once it returns the
  tablet.
\<close>

theorem duplicate_filter_ambiguous:
  assumes known: "clusterMap a i = Some c"
    and twice: "ids = xs @ i # ys @ i # zs"
    and up: "\<forall>d\<in>set (lookupClusters (clusterMap a) ids). \<not> isl (ClusterGetTablets d)"
    and ts: "ClusterGetTablets c = Inr ts"
    and one: "filter (\<lambda>t. Hostname (Tablet t) = h) ts = [t]"
  shows "fst (getClustersForRequest a ids) =
           lookupClusters (clusterMap a) xs @ c # lookupClusters (clusterMap a) ys @ c #
           lookupClusters (clusterMap a) zs \<and>
         snd (GetTablet a h ids) =
           map (\<lambda>d. CallGetTablets (ID d)) (fst (getClustersForRequest a ids)) \<and>
         fst (GetTablet a h ids) =
           (None, Some (VtError Code_NOT_FOUND tabletFmt
                          [ArgSentinel ErrAmbiguousTablet, ArgString h, ArgStrings ids])) \<and>
         fst (GetTablet a h [i]) = (Some t, None)"
proof -
  let ?m = "clusterMap a"
  from twice have ne: "ids \<noteq> []" by simp
  then have g: "getClustersForRequest a ids = (lookupClusters ?m ids, ids)"
    by (simp add: getClustersForRequest_def)
  from known twice have cs: "lookupClusters ?m ids =
      lookupClusters ?m xs @ c # lookupClusters ?m ys @ c # lookupClusters ?m zs"
    by (simp add: lookupClusters_append)
  have log: "snd (GetTablet a h ids) =
      map (\<lambda>d. CallGetTablets (ID d)) (fst (getClustersForRequest a ids))"
    by (simp add: GetTablet_eq tabletBranch_log concat_map_singleton)
  from up have er: "concat (map (\<lambda>d. fst (snd (tabletBranch h d))) (lookupClusters ?m ids)) = []"
    by (simp add: tabletBranch_errs)
  from ts one have "fst (tabletBranch h c) = [t]" by (simp add: tabletBranch_ok)
  then have "2 \<le> length (concat (map (\<lambda>d. fst (tabletBranch h d)) (lookupClusters ?m ids)))"
    by (simp add: cs)
  then have amb: "fst (GetTablet a h ids) =
           (None, Some (VtError Code_NOT_FOUND tabletFmt
                          [ArgSentinel ErrAmbiguousTablet, ArgString h, ArgStrings ids]))"
    by (simp add: GetTablet_eq g er Let_def switch_many)
  from known ts one have single: "fst (GetTablet a h [i]) = (Some t, None)"
    by (simp add: GetTablet_eq getClustersForRequest_def tabletBranch_ok)
  from g cs log amb single show ?thesis by simp
qed

theorem duplicate_filter_ambiguous_witness:
  "getClustersForRequest (exApi (exCluster (Inr [exTablet ''h1'' 1 SERVING, exTablet ''h2'' 2 SERVING]) (Inr []) (Inr None))) [''c1'', ''c1''] =
     ([exCluster (Inr [exTablet ''h1'' 1 SERVING, exTablet ''h2'' 2 SERVING]) (Inr []) (Inr None), exCluster (Inr [exTablet ''h1'' 1 SERVING, exTablet ''h2'' 2 SERVING]) (Inr []) (Inr None)], [''c1'', ''c1'']) \<and>
   GetTablet (exApi (exCluster (Inr [exTablet ''h1'' 1 SERVING, exTablet ''h2'' 2 SERVING]) (Inr []) (Inr None))) ''h1'' [''c1'', ''c1''] =
     ((None, Some (VtError Code_NOT_FOUND tabletFmt
                     [ArgSentinel ErrAmbiguousTablet, ArgString ''h1'', ArgStrings [''c1'', ''c1'']])),
      [CallGetTablets ''c1'', CallGetTablets ''c1'']) \<and>
   fst (GetTablet (exApi (exCluster (Inr [exTablet ''h1'' 1 SERVING, exTablet ''h2'' 2 SERVING]) (Inr []) (Inr None))) ''h1'' [''c1'']) = (Some (exTablet ''h1'' 1 SERVING), None)"
proof -
  let ?c = "exCluster (Inr [exTablet ''h1'' 1 SERVING, exTablet ''h2'' 2 SERVING]) (Inr []) (Inr None)"
  have known: "clusterMap (exApi ?c) ''c1'' = Some ?c"
    by (simp add: exApi_def exCluster_def)
  have twice: "[''c1'', ''c1''] = [] @ ''c1'' # [] @ ''c1'' # []" by simp
  have ts: "ClusterGetTablets ?c = Inr [exTablet ''h1'' 1 SERVING, exTablet ''h2'' 2 SERVING]"
    by (simp add: exCluster_def)
  have up: "\<forall>d\<in>set (lookupClusters (clusterMap (exApi ?c)) [''c1'', ''c1'']).
              \<not> isl (ClusterGetTablets d)"
    using known ts by simp
  have one: "filter (\<lambda>t. Hostname (Tablet t) = ''h1'')
               [exTablet ''h1'' 1 SERVING, exTablet ''h2'' 2 SERVING] = [exTablet ''h1'' 1 SERVING]"
    by (simp add: exTablet_def)
  have "ID ?c = ''c1''" by (simp add: exCluster_def)
  with duplicate_filter_ambiguous [OF known twice up ts one] known show ?thesis
    by (simp add: getClustersForRequest_def prod_eq_iff)
qed

section \<open>Tablet lookup by hostname\<close>

lemma tabletBranch_listed:
  "fst (tabletBranch h c) = filter (\<lambda>t. Hostname (Tablet t) = h) (listed c)"
  by (simp add: tabletBranch_def listed_def split: sum.splits)

text \<open>
  C2 as stated does not hold. With one cluster listing two tablets of hostname \<open>h1\<close>,
  the error for a hostname no tablet has and the error for \<open>h1\<close> are both made by
  \<open>vterrors.Errorf\<close> with the code \<open>NOT_FOUND\<close> and the same format; they differ only
  in the sentinel whose text is formatted into the message. And with a second cluster
  whose listing fails, a hostname no tablet has gives the combined error, which is none of
  the three outcomes.
\<close>

theorem GetTablet_kinds_counterexample:
  "fst (GetTablet (exApi
          (exCluster (Inr [exTablet ''h1'' 1 SERVING, exTablet ''h1'' 2 SERVING,
                           exTablet ''h3'' 3 SERVING]) (Inr []) (Inr None))) ''h9'' []) =
     (None, Some (VtError Code_NOT_FOUND tabletFmt
                    [ArgSentinel ErrNoTablet, ArgString ''h9'', ArgStrings [''c1'']])) \<and>
   fst (GetTablet (exApi
          (exCluster (Inr [exTablet ''h1'' 1 SERVING, exTablet ''h1'' 2 SERVING,
                           exTablet ''h3'' 3 SERVING]) (Inr []) (Inr None))) ''h1'' []) =
     (None, Some (VtError Code_NOT_FOUND tabletFmt
                    [ArgSentinel ErrAmbiguousTablet, ArgString ''h1'', ArgStrings [''c1'']])) \<and>
   errCode (the (snd (fst (GetTablet (exApi
          (exCluster (Inr [exTablet ''h1'' 1 SERVING, exTablet ''h1'' 2 SERVING,
                           exTablet ''h3'' 3 SERVING]) (Inr []) (Inr None))) ''h9'' [])))) =
   errCode (the (snd (fst (GetTablet (exApi
          (exCluster (Inr [exTablet ''h1'' 1 SERVING, exTablet ''h1'' 2 SERVING,
                           exTablet ''h3'' 3 SERVING]) (Inr []) (Inr None))) ''h1'' [])))) \<and>
   fst (GetTablet (exApi2
          (exCluster (Inr [exTablet ''h1'' 1 SERVING, exTablet ''h1'' 2 SERVING,
                           exTablet ''h3'' 3 SERVING]) (Inr []) (Inr None)) exDown) ''h9'' []) =
     (None, Some (AllErrors [Remote ''c2 unreachable'']))"
  by (simp add: GetTablet_eq getClustersForRequest_def exApi_def exApi2_def tabletBranch_def
        exCluster_def exDown_def exTablet_def)

text \<open>
  C2, amended. For every hostname and every cluster-id filter for which the tablet
  listing of every selected cluster succeeds, \<open>GetTablet\<close> yields exactly one of three
  outcomes, by the number of tablets with that hostname over the selected clusters: with
  none, a \<open>NOT_FOUND\<close> error formatted from the no-tablet sentinel, the hostname and
  the effective cluster identifiers; with exactly one, that tablet; with two or more, a
  \<open>NOT_FOUND\<close> error formatted from the ambiguous-tablet sentinel, the hostname and the
  effective cluster identifiers. The two errors carry the same code and differ in the
  sentinel text of their message.
\<close>

theorem GetTablet_three_way:
  assumes up: "\<forall>c\<in>set (fst (getClustersForRequest a ids)). \<not> isl (ClusterGetTablets c)"
    and m: "matches = concat (map (\<lambda>c. filter (\<lambda>t. Hostname (Tablet t) = h) (listed c))
                               (fst (getClustersForRequest a ids)))"
    and eids: "eids = snd (getClustersForRequest a ids)"
  shows "(matches = [] \<longrightarrow>
            fst (GetTablet a h ids) =
              (None, Some (VtError Code_NOT_FOUND tabletFmt
                             [ArgSentinel ErrNoTablet, ArgString h, ArgStrings eids]))) \<and>
         (matches = [t] \<longrightarrow> fst (GetTablet a h ids) = (Some t, None)) \<and>
         (2 \<le> length matches \<longrightarrow>
            fst (GetTablet a h ids) =
              (None, Some (VtError Code_NOT_FOUND tabletFmt
                             [ArgSentinel ErrAmbiguousTablet, ArgString h, ArgStrings eids])))"
proof -
  from up have er: "concat (map (\<lambda>c. fst (snd (tabletBranch h c)))
                      (fst (getClustersForRequest a ids))) = []"
    by (simp add: tabletBranch_errs)
  have g: "fst (GetTablet a h ids) =
      (case matches of
         [] \<Rightarrow> (None, Some (VtError Code_NOT_FOUND tabletFmt
                        [ArgSentinel ErrNoTablet, ArgString h, ArgStrings eids]))
       | [t] \<Rightarrow> (Some t, None)
       | _ \<Rightarrow> (None, Some (VtError Code_NOT_FOUND tabletFmt
                        [ArgSentinel ErrAmbiguousTablet, ArgString h, ArgStrings eids])))"
    unfolding m eids by (simp add: GetTablet_eq er Let_def tabletBranch_listed)
  show ?thesis
    by (simp add: g switch_many)
qed

theorem GetTablet_three_way_witness:
  "fst (GetTablet (exApi
          (exCluster (Inr [exTablet ''h1'' 1 SERVING, exTablet ''h1'' 2 SERVING,
                           exTablet ''h3'' 3 SERVING]) (Inr []) (Inr None))) ''h9'' []) =
     (None, Some (VtError Code_NOT_FOUND tabletFmt
                    [ArgSentinel ErrNoTablet, ArgString ''h9'', ArgStrings [''c1'']])) \<and>
   fst (GetTablet (exApi
          (exCluster (Inr [exTablet ''h1'' 1 SERVING, exTablet ''h1'' 2 SERVING,
                           exTablet ''h3'' 3 SERVING]) (Inr []) (Inr None))) ''h3'' []) = (Some (exTablet ''h3'' 3 SERVING), None) \<and>
   fst (GetTablet (exApi
          (exCluster (Inr [exTablet ''h1'' 1 SERVING, exTablet ''h1'' 2 SERVING,
                           exTablet ''h3'' 3 SERVING]) (Inr []) (Inr None))) ''h1'' []) =
     (None, Some (VtError Code_NOT_FOUND tabletFmt
                    [ArgSentinel ErrAmbiguousTablet, ArgString ''h1'', ArgStrings [''c1'']]))"
proof -
  let ?c = "exCluster (Inr [exTablet ''h1'' 1 SERVING, exTablet ''h1'' 2 SERVING, exTablet ''h3'' 3 SERVING]) (Inr []) (Inr None)"
  let ?a = "exApi ?c"
  have cs: "getClustersForRequest ?a [] = ([?c], [''c1''])"
    by (simp add: getClustersForRequest_def exApi_def exCluster_def)
  have up: "\<forall>c\<in>set (fst (getClustersForRequest ?a [])). \<not> isl (ClusterGetTablets c)"
    unfolding cs by (simp add: exCluster_def)
  have e: "[''c1''] = snd (getClustersForRequest ?a [])" unfolding cs by simp
  have m9: "[] = concat (map (\<lambda>c. filter (\<lambda>t. Hostname (Tablet t) = ''h9'') (listed c))
                               (fst (getClustersForRequest ?a [])))"
    unfolding cs by (simp add: listed_def exCluster_def exTablet_def)
  have m3: "[exTablet ''h3'' 3 SERVING] =
              concat (map (\<lambda>c. filter (\<lambda>t. Hostname (Tablet t) = ''h3'') (listed c))
                               (fst (getClustersForRequest ?a [])))"
    unfolding cs by (simp add: listed_def exCluster_def exTablet_def)
  have m1: "[exTablet ''h1'' 1 SERVING, exTablet ''h1'' 2 SERVING] =
              concat (map (\<lambda>c. filter (\<lambda>t. Hostname (Tablet t) = ''h1'') (listed c))
                               (fst (getClustersForRequest ?a [])))"
    unfolding cs by (simp add: listed_def exCluster_def exTablet_def)
  from GetTablet_three_way [OF up m9 e] GetTablet_three_way [OF up m3 e, of "exTablet ''h3'' 3 SERVING"]
    GetTablet_three_way [OF up m1 e]
  show ?thesis by simp
qed

section \<open>VTExplain: validation and the serving vschema\<close>

text \<open>
  C7 as stated does not hold. A request with an empty cluster id and an empty SQL text
  fails with "cluster ID is required" alone: the empty SQL text is not reported. A request
  with an unknown cluster id and an empty keyspace name fails with "keyspace name is
  required", not with the unsupported-cluster error.
\<close>

theorem VTExplain_validation_counterexample:
  "VTExplain exExternals (exApi (exCluster (Inr [exTablet ''h1'' 1 SERVING]) (Inr []) (Inr (exSchema [exTable])))) \<lparr>req_Cluster = [], req_Keyspace = ''ks1'', req_Sql = []\<rparr> =
     (Returns (None, Some (Wrap ErrInvalidRequest '': cluster ID is required'')), []) \<and>
   fst (VTExplain exExternals (exApi (exCluster (Inr [exTablet ''h1'' 1 SERVING]) (Inr []) (Inr (exSchema [exTable])))) \<lparr>req_Cluster = [], req_Keyspace = ''ks1'', req_Sql = []\<rparr>) \<noteq>
     Returns (None, Some (Wrap ErrInvalidRequest '': SQL query is required'')) \<and>
   VTExplain exExternals (exApi (exCluster (Inr [exTablet ''h1'' 1 SERVING]) (Inr []) (Inr (exSchema [exTable])))) \<lparr>req_Cluster = ''zz'', req_Keyspace = [], req_Sql = ''select 1''\<rparr> =
     (Returns (None, Some (Wrap ErrInvalidRequest '': keyspace name is required'')), []) \<and>
   fst (VTExplain exExternals (exApi (exCluster (Inr [exTablet ''h1'' 1 SERVING]) (Inr []) (Inr (exSchema [exTable])))) \<lparr>req_Cluster = ''zz'', req_Keyspace = [], req_Sql = ''select 1''\<rparr>) \<noteq>
     Returns (None, Some (Sentinel ErrUnsupportedCluster))"
  by (simp add: VTExplain_def)

text \<open>
  C7, amended. \<open>VTExplain\<close> checks the cluster id, the keyspace name and the SQL text
  in that order before anything else, and fails at the first empty one with an
  invalid-request error of its own message ("cluster ID is required", "keyspace name is
  required", "SQL query is required"); a later empty field is not reported. In particular,
  a request with a cluster id and a keyspace name but an empty SQL text fails with the
  invalid-request error naming "SQL query is required". When all three are non-empty and
  the cluster id is unknown, it fails with the unsupported-cluster error. In each of these
  cases no remote call is issued.
\<close>

theorem VTExplain_validation:
  "(req_Cluster req = [] \<longrightarrow>
      VTExplain x a req = (Returns (None, Some (Wrap ErrInvalidRequest '': cluster ID is required'')), [])) \<and>
   (req_Cluster req \<noteq> [] \<and> req_Keyspace req = [] \<longrightarrow>
      VTExplain x a req = (Returns (None, Some (Wrap ErrInvalidRequest '': keyspace name is required'')), [])) \<and>
   (req_Cluster req \<noteq> [] \<and> req_Keyspace req \<noteq> [] \<and> req_Sql req = [] \<longrightarrow>
      VTExplain x a req = (Returns (None, Some (Wrap ErrInvalidRequest '': SQL query is required'')), [])) \<and>
   (req_Cluster req \<noteq> [] \<and> req_Keyspace req \<noteq> [] \<and> req_Sql req \<noteq> [] \<and>
    clusterMap a (req_Cluster req) = None \<longrightarrow>
      VTExplain x a req = (Returns (None, Some (Sentinel ErrUnsupportedCluster)), []))"
  by (simp add: VTExplain_def)

theorem VTExplain_validation_witness:
  "VTExplain exExternals (exApi (exCluster (Inr [exTablet ''h1'' 1 SERVING]) (Inr []) (Inr (exSchema [exTable])))) \<lparr>req_Cluster = [], req_Keyspace = ''ks1'', req_Sql = ''select 1''\<rparr> =
     (Returns (None, Some (Wrap ErrInvalidRequest '': cluster ID is required'')), []) \<and>
   VTExplain exExternals (exApi (exCluster (Inr [exTablet ''h1'' 1 SERVING]) (Inr []) (Inr (exSchema [exTable])))) \<lparr>req_Cluster = ''c1'', req_Keyspace = [], req_Sql = ''select 1''\<rparr> =
     (Returns (None, Some (Wrap ErrInvalidRequest '': keyspace name is required'')), []) \<and>
   VTExplain exExternals (exApi (exCluster (Inr [exTablet ''h1'' 1 SERVING]) (Inr []) (Inr (exSchema [exTable])))) \<lparr>req_Cluster = ''c1'', req_Keyspace = ''ks1'', req_Sql = []\<rparr> =
     (Returns (None, Some (Wrap ErrInvalidRequest '': SQL query is required'')), []) \<and>
   clusterMap (exApi (exCluster (Inr [exTablet ''h1'' 1 SERVING]) (Inr []) (Inr (exSchema [exTable])))) ''zz'' = None \<and>
   VTExplain exExternals (exApi (exCluster (Inr [exTablet ''h1'' 1 SERVING]) (Inr []) (Inr (exSchema [exTable])))) \<lparr>req_Cluster = ''zz'', req_Keyspace = ''ks1'', req_Sql = ''select 1''\<rparr> =
     (Returns (None, Some (Sentinel ErrUnsupportedCluster)), [])"
proof -
  let ?a = "exApi (exCluster (Inr [exTablet ''h1'' 1 SERVING]) (Inr []) (Inr (exSchema [exTable])))"
  have u: "clusterMap ?a ''zz'' = None" by (simp add: exApi_def exCluster_def)
  from u VTExplain_validation [of "\<lparr>req_Cluster = [], req_Keyspace = ''ks1'', req_Sql = ''select 1''\<rparr>" exExternals ?a]
    VTExplain_validation [of "\<lparr>req_Cluster = ''c1'', req_Keyspace = [], req_Sql = ''select 1''\<rparr>" exExternals ?a]
    VTExplain_validation [of "\<lparr>req_Cluster = ''c1'', req_Keyspace = ''ks1'', req_Sql = []\<rparr>" exExternals ?a]
    VTExplain_validation [of "\<lparr>req_Cluster = ''zz'', req_Keyspace = ''ks1'', req_Sql = ''select 1''\<rparr>" exExternals ?a]
  show ?thesis by simp
qed

text \<open>
  The serving-vschema fetch of \<open>VTExplain\<close> on a response that carries a serving
  vschema. When that vschema has no entry for the target keyspace, the fetch records the
  missing-serving-vschema error naming the keyspace, and the call (unless the schema fetch
  panics) fails with a combined error that contains it. When the entry is present and
  serialises to \<open>js\<close>, the slot written is exactly \<open>{"<keyspace>": js}\<close>, and once
  the other two fetches have written their slots this string is the vschema argument the
  explain engine is initialised with.
\<close>

theorem srv_vschema_fragment:
  assumes "req_Cluster req \<noteq> []" "req_Keyspace req \<noteq> []" "req_Sql req \<noteq> []"
    and "clusterMap a (req_Cluster req) = Some c"
    and "FindTablet c (servingNonMaster x (req_Keyspace req)) = Inr tablet"
    and "Dial c = None"
    and "GetSrvVSchema c (Cell (Alias (Tablet tablet))) = Inr res"
    and "SrvVSchema res = Some sv"
  shows \<open>(Keyspaces sv (req_Keyspace req) = None \<longrightarrow>
           srvVSchemaTask x c tablet (req_Keyspace req) =
             Recorded (Wrap ErrNoSrvVSchema ('': keyspace '' @ req_Keyspace req)) \<and>
           (schemaTask c tablet \<noteq> Panicked \<longrightarrow>
              (\<exists>es. fst (VTExplain x a req) = Returns (None, Some (AllErrors es)) \<and>
                    Wrap ErrNoSrvVSchema ('': keyspace '' @ req_Keyspace req) \<in> set es))) \<and>
         (Keyspaces sv (req_Keyspace req) = Some v \<and> MarshalVSchema x v = Inr js \<and>
          schemaTask c tablet = Slot s1 \<and> shardMapTask x c (req_Keyspace req) = Slot s3 \<longrightarrow>
           srvVSchemaTask x c tablet (req_Keyspace req) =
             Slot (''{"'' @ req_Keyspace req @ ''": '' @ js @ ''}'') \<and>
           fst (VTExplain x a req) =
             (case Init x (''{"'' @ req_Keyspace req @ ''": '' @ js @ ''}'') s1 s3 of
                Some err \<Rightarrow> Returns (None, Some err)
              | None \<Rightarrow>
                  (case Run x (req_Sql req) of
                     Inl err \<Rightarrow> Returns (None, Some err)
                   | Inr plans \<Rightarrow> Returns (Some (ExplainsAsText x plans), None))))\<close>
proof -
  let ?ks = "req_Keyspace req"
  have v: "fst (VTExplain x a req) =
      explain x (req_Sql req) (schemaTask c tablet) (srvVSchemaTask x c tablet ?ks)
        (shardMapTask x c ?ks)"
    using assms by (simp add: VTExplain_tasks)
  have sm: "shardMapTask x c ?ks \<noteq> Panicked"
    by (simp add: shardMapTask_def split: sum.splits)
  have missing: "srvVSchemaTask x c tablet ?ks = Recorded (Wrap ErrNoSrvVSchema ('': keyspace '' @ ?ks))"
    if "Keyspaces sv ?ks = None"
    using that assms by (simp add: srvVSchemaTask_def)
  have failed: "\<exists>es. fst (VTExplain x a req) = Returns (None, Some (AllErrors es)) \<and>
                    Wrap ErrNoSrvVSchema ('': keyspace '' @ ?ks) \<in> set es"
    if "Keyspaces sv ?ks = None" "schemaTask c tablet \<noteq> Panicked"
    using that sm by (simp add: v missing explain_def recorded_def)
  have present: "srvVSchemaTask x c tablet ?ks = Slot (keyed ?ks js)"
    if "Keyspaces sv ?ks = Some v" "MarshalVSchema x v = Inr js"
    using that assms by (simp add: srvVSchemaTask_def)
  have handed: "fst (VTExplain x a req) =
             (case Init x (keyed ?ks js) s1 s3 of
                Some err \<Rightarrow> Returns (None, Some err)
              | None \<Rightarrow>
                  (case Run x (req_Sql req) of
                     Inl err \<Rightarrow> Returns (None, Some err)
                   | Inr plans \<Rightarrow> Returns (Some (ExplainsAsText x plans), None)))"
    if "Keyspaces sv ?ks = Some v" "MarshalVSchema x v = Inr js"
       "schemaTask c tablet = Slot s1" "shardMapTask x c ?ks = Slot s3"
    using that by (simp add: v present explain_def recorded_def slot_def)
  from missing failed present handed show ?thesis
    by (simp add: keyed_def)
qed

theorem srv_vschema_fragment_witness:
  \<open>fst (VTExplain exExternals (exApi ((exCluster (Inr [exTablet ''h1'' 5 SERVING]) (Inr []) (Inr (exSchema [exTable])))\<lparr>GetSrvVSchema := (\<lambda>_. Inr \<lparr>SrvVSchema = Some \<lparr>Keyspaces = Map.empty\<rparr>\<rparr>)\<rparr>)) \<lparr>req_Cluster = ''c1'', req_Keyspace = ''ks1'', req_Sql = ''select 1''\<rparr>) =
     Returns (None, Some (AllErrors [Wrap ErrNoSrvVSchema '': keyspace ks1''])) \<and>
   srvVSchemaTask (exExternals\<lparr>Init := (\<lambda>v s m. if v = ''{"ks1": {}}'' then None else Some (Remote ''unexpected vschema''))\<rparr>) (exCluster (Inr [exTablet ''h1'' 5 SERVING]) (Inr []) (Inr (exSchema [exTable]))) (exTablet ''h1'' 5 SERVING) ''ks1'' = Slot ''{"ks1": {}}'' \<and>
   fst (VTExplain (exExternals\<lparr>Init := (\<lambda>v s m. if v = ''{"ks1": {}}'' then None else Some (Remote ''unexpected vschema''))\<rparr>) (exApi (exCluster (Inr [exTablet ''h1'' 5 SERVING]) (Inr []) (Inr (exSchema [exTable])))) \<lparr>req_Cluster = ''c1'', req_Keyspace = ''ks1'', req_Sql = ''select 1''\<rparr>) = Returns (Some ''select 1'', None)\<close>
proof -
  let ?c = "exCluster (Inr [exTablet ''h1'' 5 SERVING]) (Inr []) (Inr (exSchema [exTable]))"
  let ?m = "(exCluster (Inr [exTablet ''h1'' 5 SERVING]) (Inr []) (Inr (exSchema [exTable])))\<lparr>GetSrvVSchema := (\<lambda>_. Inr \<lparr>SrvVSchema = Some \<lparr>Keyspaces = Map.empty\<rparr>\<rparr>)\<rparr>"
  let ?x = \<open>exExternals\<lparr>Init := (\<lambda>v s m. if v = ''{"ks1": {}}'' then None else Some (Remote ''unexpected vschema''))\<rparr>\<close>
  let ?req = "\<lparr>req_Cluster = ''c1'', req_Keyspace = ''ks1'', req_Sql = ''select 1''\<rparr>"
  let ?t = "exTablet ''h1'' 5 SERVING"
  have r: "req_Cluster ?req \<noteq> []" "req_Keyspace ?req \<noteq> []" "req_Sql ?req \<noteq> []"
    by simp_all
  have m: "clusterMap (exApi ?m) (req_Cluster ?req) = Some ?m"
    "FindTablet ?m (servingNonMaster exExternals (req_Keyspace ?req)) = Inr ?t"
    "Dial ?m = None"
    "GetSrvVSchema ?m (Cell (Alias (Tablet ?t))) = Inr \<lparr>SrvVSchema = Some \<lparr>Keyspaces = Map.empty\<rparr>\<rparr>"
    "SrvVSchema \<lparr>SrvVSchema = Some \<lparr>Keyspaces = Map.empty\<rparr>\<rparr> = Some \<lparr>Keyspaces = Map.empty\<rparr>"
    by (simp_all add: exApi_def exCluster_def servingNonMaster_def exExternals_def exTablet_def)
  have ms: "schemaTask ?m ?t = Slot ''create table t1 (id int)''"
    "shardMapTask exExternals ?m ''ks1'' = Slot (keyed ''ks1'' ''{}'')"
    by (simp_all add: schemaTask_def shardMapTask_def exCluster_def exSchema_def exTable_def
          exExternals_def)
  from srv_vschema_fragment [OF r m, THEN conjunct1]
  have "srvVSchemaTask exExternals ?m ?t ''ks1'' = Recorded (Wrap ErrNoSrvVSchema '': keyspace ks1'')"
    by simp
  with ms have a: "fst (VTExplain exExternals (exApi ?m) ?req) =
     Returns (None, Some (AllErrors [Wrap ErrNoSrvVSchema '': keyspace ks1'']))"
    by (simp add: VTExplain_tasks [OF r m(1-3)] explain_def recorded_def)
  have p: "clusterMap (exApi ?c) (req_Cluster ?req) = Some ?c"
    "FindTablet ?c (servingNonMaster ?x (req_Keyspace ?req)) = Inr ?t"
    "Dial ?c = None"
    "GetSrvVSchema ?c (Cell (Alias (Tablet ?t))) =
       Inr \<lparr>SrvVSchema = Some \<lparr>Keyspaces = [''ks1'' \<mapsto> VSchemaKeyspace ''{}'']\<rparr>\<rparr>"
    "SrvVSchema \<lparr>SrvVSchema = Some \<lparr>Keyspaces = [''ks1'' \<mapsto> VSchemaKeyspace ''{}'']\<rparr>\<rparr> =
       Some \<lparr>Keyspaces = [''ks1'' \<mapsto> VSchemaKeyspace ''{}'']\<rparr>"
    by (simp_all add: exApi_def exCluster_def servingNonMaster_def exExternals_def exTablet_def)
  have ps: "Keyspaces \<lparr>Keyspaces = [''ks1'' \<mapsto> VSchemaKeyspace ''{}'']\<rparr> (req_Keyspace ?req) =
              Some (VSchemaKeyspace ''{}'')"
    "MarshalVSchema ?x (VSchemaKeyspace ''{}'') = Inr ''{}''"
    "schemaTask ?c ?t = Slot ''create table t1 (id int)''"
    "shardMapTask ?x ?c (req_Keyspace ?req) = Slot (keyed ''ks1'' ''{}'')"
    by (simp_all add: schemaTask_def shardMapTask_def exCluster_def exSchema_def exTable_def
          exExternals_def)
  from srv_vschema_fragment [OF r p, THEN conjunct2, of "VSchemaKeyspace ''{}''" "''{}''"
         "''create table t1 (id int)''" "keyed ''ks1'' ''{}''"] ps
  have b: \<open>srvVSchemaTask ?x ?c ?t ''ks1'' = Slot ''{"ks1": {}}'' \<and>
           fst (VTExplain ?x (exApi ?c) ?req) = Returns (Some ''select 1'', None)\<close>
    by (simp add: exExternals_def)
  from a b show ?thesis by simp
qed

text \<open>
  C8. A remote serving-vschema response that does not contain the target keyspace makes
  the call fail with the missing-serving-vschema error naming the keyspace.
  \<open>VTExplain\<close> breaks this on a response whose \<open>SrvVSchema\<close> is \<open>nil\<close>: it reads
  \<open>res.SrvVSchema.Keyspaces\<close> without the \<open>nil\<close> check that
  \<open>getSchemasForKeyspace\<close> makes on its response, so on a cluster answering that way
  (its schema fetch succeeding) the vschema fetch panics and the call returns nothing.
\<close>

theorem VTExplain_nil_srv_vschema:
  "GetSrvVSchema ((exCluster (Inr [exTablet ''h1'' 5 SERVING]) (Inr []) (Inr (exSchema [exTable])))
        \<lparr>GetSrvVSchema := (\<lambda>_. Inr \<lparr>SrvVSchema = None\<rparr>)\<rparr>) ''zone1'' = Inr \<lparr>SrvVSchema = None\<rparr> \<and>
   schemaTask ((exCluster (Inr [exTablet ''h1'' 5 SERVING]) (Inr []) (Inr (exSchema [exTable])))
        \<lparr>GetSrvVSchema := (\<lambda>_. Inr \<lparr>SrvVSchema = None\<rparr>)\<rparr>) (exTablet ''h1'' 5 SERVING) = Slot ''create table t1 (id int)'' \<and>
   srvVSchemaTask exExternals ((exCluster (Inr [exTablet ''h1'' 5 SERVING]) (Inr []) (Inr (exSchema [exTable])))
        \<lparr>GetSrvVSchema := (\<lambda>_. Inr \<lparr>SrvVSchema = None\<rparr>)\<rparr>) (exTablet ''h1'' 5 SERVING) ''ks1'' = Panicked \<and>
   fst (VTExplain exExternals (exApi ((exCluster (Inr [exTablet ''h1'' 5 SERVING]) (Inr []) (Inr (exSchema [exTable])))
        \<lparr>GetSrvVSchema := (\<lambda>_. Inr \<lparr>SrvVSchema = None\<rparr>)\<rparr>)) \<lparr>req_Cluster = ''c1'', req_Keyspace = ''ks1'', req_Sql = ''select 1''\<rparr>) = Panics"
  by (simp add: VTExplain_def explain_def schemaTask_def srvVSchemaTask_def shardMapTask_def
        exApi_def exCluster_def exExternals_def servingNonMaster_def exTablet_def exSchema_def
        exTable_def)

end
